theory Spec2Isabelle
  imports Complex_Main "HOL-Library.Multiset" "HOL-Library.AList" "HOL-Library.Sublist"
begin

section \<open>Python values and exceptions\<close>

text \<open>
  The exceptions the modelled code can raise. \<open>ValueError\<close> comes from
  \<^verbatim>\<open>randint\<close> on an empty range, \<open>ZeroDivisionError\<close> from \<^verbatim>\<open>%\<close>,
  \<open>IndexError\<close> from \<^verbatim>\<open>list.pop\<close>, \<open>TypeError\<close> from
  \<^verbatim>\<open>os.path.join(None, ...)\<close>, \<open>FileNotFoundError\<close> from \<^verbatim>\<open>open\<close>,
  \<open>AttributeError\<close> from reading a Namespace attribute that is not there,
  \<open>SystemExit\<close> from \<^verbatim>\<open>parse_args\<close> on a command line it rejects and
  \<open>ExternalError\<close> stands for a failure of an external collaborator
  (\<^verbatim>\<open>torch.load\<close>, \<^verbatim>\<open>eval\<close>).
\<close>

datatype error =
    ValueError
  | ZeroDivisionError
  | IndexError
  | TypeError
  | FileNotFoundError
  | AttributeError
  | SystemExit
  | ExternalError

text \<open>
  Python floats occur in the modelled code only as configuration constants that are
  stored and passed on, never computed with; a decimal literal is kept as the rational
  it denotes.
\<close>

type_synonym pyfloat = rat

text \<open>Python's \<^verbatim>\<open>a % b\<close> on ints: floored, and an exception when \<open>b\<close> is zero.\<close>

definition py_mod :: "int \<Rightarrow> int \<Rightarrow> error + int" where
  "py_mod a b = (if b \<noteq> 0 then Inr (a mod b) else Inl ZeroDivisionError)"

section \<open>arguments/__init__.py: the parameter groups\<close>

text \<open>The object \<^verbatim>\<open>ModelParams.extract\<close> returns (the \<^verbatim>\<open>dataset\<close> of \<^verbatim>\<open>training\<close>).\<close>

record ModelParams =
  sh_degree :: int
  source_path :: string
  model_path :: string
  images :: string
  resolution :: int
  white_background :: bool
  data_device :: string
  eval :: bool

record PipelineParams =
  convert_SHs_python :: bool
  compute_cov3D_python :: bool
  depth_ratio :: pyfloat
  debug :: bool

text \<open>
  The attributes of \<^verbatim>\<open>OptimizationParams\<close>. \<open>reset_opacity_until\<close> (line 97) and
  \<open>reset_opacity_unil\<close> (line 123) are two attributes of the source.
\<close>

record OptimizationParams =
  iterations :: int
  position_lr_delay_mult :: pyfloat
  position_lr_max_steps :: int
  feature_lr :: pyfloat
  opacity_lr :: pyfloat
  lambda_dssim :: pyfloat
  densification_interval :: int
  densify_from_iter :: int
  densify_until_iter :: int
  densify_grad_threshold :: pyfloat
  random_background :: bool
  reset_opacity_until :: int
  opacity_reset :: pyfloat
  opacity_reset_interval :: int
  remove_size_threshold :: pyfloat
  min_opacity :: pyfloat
  mask_threshold :: pyfloat
  lr_mask :: pyfloat
  lr_delta :: pyfloat
  lr_sigma :: pyfloat
  lr_convex_points_init :: pyfloat
  lr_convex_points_final :: pyfloat
  nb_points :: int
  convex_size :: pyfloat
  set_opacity :: pyfloat
  set_delta :: pyfloat
  opacity_cloning :: pyfloat
  delta_scaling_cloning :: int
  shifting_cloning :: int
  set_sigma :: pyfloat
  sigma_scaling_cloning :: pyfloat
  scaling_cloning :: pyfloat
  reset_opacity_unil :: int

text \<open>
  The values \<^verbatim>\<open>OptimizationParams.__init__\<close> leaves in the attributes
  (\<^verbatim>\<open>densify_grad_threshold\<close> and \<^verbatim>\<open>densify_until_iter\<close> are assigned twice; the
  later assignment stands).
\<close>

definition OptimizationParams_init :: OptimizationParams where
  "OptimizationParams_init =
    \<lparr> iterations = 30000,
      position_lr_delay_mult = 0.01,
      position_lr_max_steps = 30000,
      feature_lr = 0.0025,
      opacity_lr = 0.01,
      lambda_dssim = 0.2,
      densification_interval = 200,
      densify_from_iter = 500,
      densify_until_iter = 9000,
      densify_grad_threshold = 0.000025,
      random_background = False,
      reset_opacity_until = 9000,
      opacity_reset = 0.2,
      opacity_reset_interval = 3000,
      remove_size_threshold = 0.3,
      min_opacity = 0.03,
      mask_threshold = 0.01,
      lr_mask = 0.01,
      lr_delta = 0.005,
      lr_sigma = 0.0045,
      lr_convex_points_init = 0.0005,
      lr_convex_points_final = 0.000005,
      nb_points = 6,
      convex_size = 1.2,
      set_opacity = 0.1,
      set_delta = 0.1,
      opacity_cloning = 0.5,
      delta_scaling_cloning = 1,
      shifting_cloning = 1,
      set_sigma = 0.00095,
      sigma_scaling_cloning = 0.88,
      scaling_cloning = 0.63,
      reset_opacity_unil = 5000 \<rparr>"

text \<open>
  \<^verbatim>\<open>adapt(opt, light, outdoor)\<close>: two independent \<^verbatim>\<open>if\<close> statements that assign
  attributes of \<open>opt\<close>, then \<^verbatim>\<open>return opt\<close>.
\<close>

definition adapt :: "OptimizationParams \<Rightarrow> bool \<Rightarrow> bool \<Rightarrow> OptimizationParams" where
  "adapt opt light outdoor =
    (let opt1 =
       (if \<not> light \<and> outdoor then
          opt\<lparr> set_sigma := 0.001,
               densify_grad_threshold := 0.000001,
               lr_sigma := 0.004,
               reset_opacity_unil := 18000,
               scaling_cloning := 0.6 \<rparr>
        else opt);
         opt2 =
       (if \<not> light \<and> \<not> outdoor then
          opt1\<lparr> sigma_scaling_cloning := 0.85,
                set_sigma := 0.0009,
                densify_grad_threshold := 0.000006,
                mask_threshold := 0.02,
                scaling_cloning := 0.7,
                lr_convex_points_init := 0.0004,
                lr_convex_points_final := 0.000004,
                densify_until_iter := 9500 \<rparr>
        else opt1)
     in opt2)"

text \<open>The class attributes of \<^verbatim>\<open>ModelParams\<close> and \<^verbatim>\<open>PipelineParams\<close>.\<close>

definition ModelParams_init :: ModelParams where
  "ModelParams_init =
    \<lparr> sh_degree = 3, source_path = [], model_path = [], images = ''images'',
      resolution = - 1, white_background = False, data_device = ''cuda'', eval = False \<rparr>"

definition PipelineParams_init :: PipelineParams where
  "PipelineParams_init =
    \<lparr> convert_SHs_python = False, compute_cov3D_python = False, depth_ratio = 1.0,
      debug = False \<rparr>"

subsection \<open>Command-line registration (\<^verbatim>\<open>ParamGroup.__init__\<close>)\<close>

datatype pyval = PNone | PBool bool | PInt int | PFloat pyfloat | PStr string

datatype pytype = TNone | TBool | TInt | TFloat | TStr

fun type_of_pyval :: "pyval \<Rightarrow> pytype" where
  "type_of_pyval PNone = TNone"
| "type_of_pyval (PBool _) = TBool"
| "type_of_pyval (PInt _) = TInt"
| "type_of_pyval (PFloat _) = TFloat"
| "type_of_pyval (PStr _) = TStr"

text \<open>A \<^verbatim>\<open>Namespace\<close> (and \<^verbatim>\<open>vars\<close> of it): a dict in insertion order.\<close>

type_synonym namespace = "(string \<times> pyval) list"

datatype action = StoreTrue | Store pytype

text \<open>What one \<^verbatim>\<open>add_argument\<close> call registers.\<close>

record argument =
  dest :: string
  option_strings :: "string list"
  arg_default :: pyval
  arg_action :: action

text \<open>
  The body of the loop of \<^verbatim>\<open>ParamGroup.__init__\<close> for one item of \<^verbatim>\<open>vars(self)\<close>:
  a leading underscore asks for a one-letter shorthand, \<^verbatim>\<open>fill_none\<close> replaces the
  default by \<^verbatim>\<open>None\<close>, a bool becomes a \<^verbatim>\<open>store_true\<close> flag.
\<close>

definition add_param :: "bool \<Rightarrow> string \<times> pyval \<Rightarrow> argument" where
  "add_param fill_none item =
    (let shorthand = (take 1 (fst item) = ''_'');
         key = (if shorthand then drop 1 (fst item) else fst item);
         t = type_of_pyval (snd item);
         val = (if \<not> fill_none then snd item else PNone)
     in \<lparr> dest = key,
          option_strings =
            (if shorthand then [''--'' @ key, ''-'' @ take 1 key] else [''--'' @ key]),
          arg_default = val,
          arg_action = (if t = TBool then StoreTrue else Store t) \<rparr>)"

definition ParamGroup_init :: "(string \<times> pyval) list \<Rightarrow> bool \<Rightarrow> argument list" where
  "ParamGroup_init attrs fill_none = map (add_param fill_none) attrs"

definition ModelParams_fields :: "(string \<times> pyval) list" where
  "ModelParams_fields =
    [ (''sh_degree'', PInt 3),
      (''_source_path'', PStr []),
      (''_model_path'', PStr []),
      (''_images'', PStr ''images''),
      (''_resolution'', PInt (- 1)),
      (''_white_background'', PBool False),
      (''data_device'', PStr ''cuda''),
      (''eval'', PBool False) ]"

text \<open>\<^verbatim>\<open>ModelParams(parser, sentinel)\<close> on a fresh parser.\<close>

definition ModelParams_parser :: "bool \<Rightarrow> argument list" where
  "ModelParams_parser sentinel = ParamGroup_init ModelParams_fields sentinel"

subsection \<open>\<^verbatim>\<open>get_combined_args\<close>\<close>

text \<open>
  \<^verbatim>\<open>parser.parse_args\<close> belongs to the standard library. Its contract, as far as
  \<^verbatim>\<open>get_combined_args\<close> depends on it: \<open>supplied\<close> are the options given explicitly
  on the command line, with their converted values; an option the parser does not
  know ends the process; the result has every registered destination, with the
  supplied value (the last one, when the option is given more than once) or else the
  registered default.
\<close>

definition parse_args :: "argument list \<Rightarrow> (string \<times> pyval) list \<Rightarrow> error + namespace" where
  "parse_args parser supplied =
    (if set (map fst supplied) \<subseteq> set (map dest parser)
     then Inr (map (\<lambda>a. (dest a,
                  (case map_of (rev supplied) (dest a) of Some v \<Rightarrow> v | None \<Rightarrow> arg_default a)))
               parser)
     else Inl SystemExit)"

text \<open>
  \<^verbatim>\<open>os.path.join(a, b)\<close> for a relative \<open>b\<close>: TypeError unless \<open>a\<close> is a string.
\<close>

definition os_path_join :: "pyval \<Rightarrow> string \<Rightarrow> error + string" where
  "os_path_join a b =
    (case a of
       PStr p \<Rightarrow> Inr (if p = [] \<or> last p = CHR ''/'' then p @ b else p @ ''/'' @ b)
     | _ \<Rightarrow> Inl TypeError)"

text \<open>
  The body of the \<^verbatim>\<open>try\<close> (lines 153 to 157): the attribute read, the join, the
  \<^verbatim>\<open>open\<close> of a file system \<open>files\<close> (path to content) and the read.
\<close>

definition read_cfgfile :: "(string \<rightharpoonup> string) \<Rightarrow> namespace \<Rightarrow> error + string" where
  "read_cfgfile files args_cmdline =
    (case map_of args_cmdline ''model_path'' of
       None \<Rightarrow> Inl AttributeError
     | Some mp \<Rightarrow>
        (case os_path_join mp ''cfg_args'' of
           Inl e \<Rightarrow> Inl e
         | Inr cfgfilepath \<Rightarrow>
            (case files cfgfilepath of
               None \<Rightarrow> Inl FileNotFoundError
             | Some content \<Rightarrow> Inr content)))"

text \<open>
  Lines 163 to 166: the stored dict, overwritten by every command-line item whose
  value is not \<^verbatim>\<open>None\<close>.
\<close>

definition merge_args :: "namespace \<Rightarrow> namespace \<Rightarrow> namespace" where
  "merge_args args_cfgfile args_cmdline =
    fold (\<lambda>item merged_dict.
            if snd item \<noteq> PNone then AList.update (fst item) (snd item) merged_dict
            else merged_dict)
      args_cmdline args_cfgfile"

text \<open>
  \<^verbatim>\<open>get_combined_args(parser)\<close>, with \<^verbatim>\<open>sys.argv[1:]\<close> as \<open>cmdlne\<close> and Python's
  \<^verbatim>\<open>eval\<close> as \<open>py_eval\<close>. Only TypeError is caught.
\<close>

definition get_combined_args ::
  "(string \<rightharpoonup> string) \<Rightarrow> (string \<Rightarrow> error + namespace) \<Rightarrow> argument list \<Rightarrow>
   (string \<times> pyval) list \<Rightarrow> error + namespace" where
  "get_combined_args files py_eval parser cmdlne =
    (case parse_args parser cmdlne of
       Inl e \<Rightarrow> Inl e
     | Inr args_cmdline \<Rightarrow>
        (case (case read_cfgfile files args_cmdline of
                 Inl e \<Rightarrow> if e = TypeError then Inr ''Namespace()'' else Inl e
               | Inr content \<Rightarrow> Inr content) of
           Inl e \<Rightarrow> Inl e
         | Inr cfgfile_string \<Rightarrow>
            (case py_eval cfgfile_string of
               Inl e \<Rightarrow> Inl e
             | Inr args_cfgfile \<Rightarrow> Inr (merge_args args_cfgfile args_cmdline))))"

text \<open>
  A stand-in for \<^verbatim>\<open>eval\<close> on the two file contents the examples below use.
\<close>

definition eval_example :: "string \<Rightarrow> error + namespace" where
  "eval_example s =
    (if s = ''Namespace()'' then Inr []
     else if s = ''Namespace(sh_degree=2)'' then Inr [(''sh_degree'', PInt 2)]
     else Inl ExternalError)"

section \<open>train.py: the training loop\<close>

text \<open>
  The renderer, the model \<^verbatim>\<open>convexes\<close>, the scene, the optimizer and the progress bar
  are external collaborators. A run is modelled by the sequence of calls it makes on
  them, in order, with the arguments the loop decides: \<open>'v\<close> is the type of a training
  view, \<open>'p\<close> the type of the model parameters a checkpoint stores.
\<close>

datatype ('v, 'p) event =
    PrepareOutputAndLogger
  | SceneSetup
  | Restore 'p
  | UpdateLearningRate int
  | OneupSHdegree
  | GetTrainCameras
  | Render 'v bool
  | Backward
  | ProgressUpdate
  | ProgressClose
  | TrainingReport int
  | SceneSave int bool
  | AddDensificationStats
  | DensifyAndPrune pyfloat pyfloat "pyfloat option"
  | ResetOpacity pyfloat
  | OnlyPrune pyfloat pyfloat
  | OptimizerStep
  | ZeroGrad

text \<open>
  A computation: the calls made so far and either the exception that ended it or its
  result. \<open>and_then\<close> is sequencing: nothing runs after an exception.
\<close>

type_synonym ('v, 'p, 'a) prog = "('v, 'p) event list \<times> (error + 'a)"

definition ret :: "'a \<Rightarrow> ('v, 'p, 'a) prog" where
  "ret x = ([], Inr x)"

definition emit :: "('v, 'p) event \<Rightarrow> ('v, 'p, unit) prog" where
  "emit e = ([e], Inr ())"

definition lift :: "error + 'a \<Rightarrow> ('v, 'p, 'a) prog" where
  "lift r = ([], r)"

definition and_then :: "('v, 'p, 'a) prog \<Rightarrow> ('a \<Rightarrow> ('v, 'p, 'b) prog) \<Rightarrow> ('v, 'p, 'b) prog" where
  "and_then m f =
    (case m of
       (es, Inl err) \<Rightarrow> (es, Inl err)
     | (es, Inr x) \<Rightarrow> (case f x of (es', r) \<Rightarrow> (es @ es', r)))"

definition when_do :: "bool \<Rightarrow> ('v, 'p, unit) prog \<Rightarrow> ('v, 'p, unit) prog" where
  "when_do c m = (if c then m else ret ())"

subsection \<open>View selection (lines 101 to 103)\<close>

text \<open>
  \<^verbatim>\<open>randint(a, b)\<close> raises ValueError on an empty range and otherwise returns some
  integer of \<open>[a, b]\<close>; \<open>r\<close> is the raw draw of the generator, reduced into the range.
\<close>

definition randint :: "int \<Rightarrow> int \<Rightarrow> nat \<Rightarrow> error + int" where
  "randint a b r = (if b < a then Inl ValueError else Inr (a + int r mod (b - a + 1)))"

text \<open>\<^verbatim>\<open>xs.pop(i)\<close>: negative indices count from the end, out of range raises.\<close>

definition pop :: "'a list \<Rightarrow> int \<Rightarrow> error + ('a \<times> 'a list)" where
  "pop xs i =
    (let k = (if 0 \<le> i then i else i + int (length xs))
     in if k < 0 \<or> int (length xs) \<le> k then Inl IndexError
        else Inr (xs ! nat k, take (nat k) xs @ drop (Suc (nat k)) xs))"

text \<open>\<^verbatim>\<open>not viewpoint_stack\<close>: true of \<^verbatim>\<open>None\<close> and of the empty list.\<close>

definition stack_falsy :: "'v list option \<Rightarrow> bool" where
  "stack_falsy stack = (case stack of None \<Rightarrow> True | Some xs \<Rightarrow> xs = [])"

definition select_view ::
  "'v list \<Rightarrow> 'v list option \<Rightarrow> nat \<Rightarrow> ('v, 'p, 'v \<times> 'v list) prog" where
  "select_view cams stack r =
    and_then (if stack_falsy stack
              then and_then (emit GetTrainCameras) (\<lambda>_. ret cams)
              else ret (the stack)) (\<lambda>viewpoint_stack.
    and_then (lift (randint 0 (int (length viewpoint_stack) - 1) r)) (\<lambda>i.
    lift (pop viewpoint_stack i)))"

subsection \<open>Population control and optimizer step (lines 143 to 166)\<close>

definition population_control ::
  "ModelParams \<Rightarrow> OptimizationParams \<Rightarrow> int \<Rightarrow> ('v, 'p, unit) prog" where
  "population_control dataset opt iteration =
    (if iteration < densify_until_iter opt then
       and_then (emit AddDensificationStats) (\<lambda>_.
       and_then (if iteration > densify_from_iter opt
                 then and_then (lift (py_mod iteration (densification_interval opt)))
                        (\<lambda>m. ret (m = 0))
                 else ret False) (\<lambda>densify.
       and_then (when_do densify
                  (let size_threshold =
                         (if iteration > opacity_reset_interval opt
                          then Some (remove_size_threshold opt) else None)
                   in emit (DensifyAndPrune (min_opacity opt) (mask_threshold opt)
                              size_threshold))) (\<lambda>_.
       and_then (lift (py_mod iteration (opacity_reset_interval opt))) (\<lambda>m.
       when_do (m = 0 \<or> (white_background dataset \<and> iteration = densify_from_iter opt))
         (emit (ResetOpacity (opacity_reset opt)))))))
     else
       and_then (when_do (iteration mod 1000 = 0)
                  (emit (OnlyPrune (min_opacity opt) (mask_threshold opt)))) (\<lambda>_.
       and_then (lift (py_mod iteration (opacity_reset_interval opt))) (\<lambda>m.
       when_do (m = 0 \<and> iteration < reset_opacity_until opt)
         (emit (ResetOpacity (opacity_reset opt))))))"

definition optimizer_step :: "OptimizationParams \<Rightarrow> int \<Rightarrow> ('v, 'p, unit) prog" where
  "optimizer_step opt iteration =
    when_do (iteration < iterations opt)
      (and_then (emit OptimizerStep) (\<lambda>_. emit ZeroGrad))"

subsection \<open>One iteration (lines 93 to 166)\<close>

text \<open>What the loop itself carries from one iteration to the next.\<close>

record 'v loop_state =
  viewpoint_stack :: "'v list option"
  pipe :: PipelineParams

definition iteration_body ::
  "'v list \<Rightarrow> nat \<Rightarrow> ModelParams \<Rightarrow> OptimizationParams \<Rightarrow> bool \<Rightarrow> int list \<Rightarrow> int list \<Rightarrow>
   int \<Rightarrow> int \<Rightarrow> 'v loop_state \<Rightarrow> ('v, 'p, 'v loop_state) prog" where
  "iteration_body cams r dataset opt light testing_iterations save_iterations
       debug_from iteration st =
    and_then (emit (UpdateLearningRate iteration)) (\<lambda>_.
    and_then (when_do (iteration mod 1000 = 0) (emit OneupSHdegree)) (\<lambda>_.
    and_then (select_view cams (viewpoint_stack st) r) (\<lambda>(viewpoint_cam, stack').
    (let pipe' = (if iteration - 1 = debug_from then (pipe st)\<lparr>debug := True\<rparr> else pipe st)
     in
    and_then (emit (Render viewpoint_cam (debug pipe'))) (\<lambda>_.
    and_then (emit Backward) (\<lambda>_.
    and_then (when_do (iteration mod 10 = 0) (emit ProgressUpdate)) (\<lambda>_.
    and_then (when_do (iteration = iterations opt) (emit ProgressClose)) (\<lambda>_.
    and_then (emit (TrainingReport iteration)) (\<lambda>_.
    and_then (when_do (iteration \<in> set save_iterations) (emit (SceneSave iteration light))) (\<lambda>_.
    and_then (population_control dataset opt iteration) (\<lambda>_.
    and_then (optimizer_step opt iteration) (\<lambda>_.
    ret \<lparr>viewpoint_stack = Some stack', pipe = pipe'\<rparr>))))))))))))"

subsection \<open>The loop and its setup (lines 67 to 91)\<close>

text \<open>
  \<^verbatim>\<open>for iteration in range(first_iter, opt.iterations + 1)\<close>, run on the list of the
  range's values; \<open>entropy i\<close> is the generator's raw draw in iteration \<open>i\<close>.
\<close>

fun for_loop ::
  "(int \<Rightarrow> 's \<Rightarrow> ('v, 'p, 's) prog) \<Rightarrow> int list \<Rightarrow> 's \<Rightarrow> ('v, 'p, 's) prog" where
  "for_loop body [] s = ret s"
| "for_loop body (i # rest) s = and_then (body i s) (for_loop body rest)"

text \<open>\<^verbatim>\<open>if checkpoint:\<close> is false of \<^verbatim>\<open>None\<close> and of the empty string.\<close>

definition checkpoint_truthy :: "string option \<Rightarrow> bool" where
  "checkpoint_truthy checkpoint = (case checkpoint of None \<Rightarrow> False | Some path \<Rightarrow> path \<noteq> [])"

text \<open>
  \<^verbatim>\<open>training\<close>. \<open>torch_load\<close> is \<^verbatim>\<open>torch.load\<close>: the stored pair of model parameters
  and iteration, or a failure. \<open>cams\<close> is what \<^verbatim>\<open>scene.getTrainCameras()\<close> returns.
\<close>

definition training ::
  "(string \<Rightarrow> error + ('p \<times> int)) \<Rightarrow> 'v list \<Rightarrow> (int \<Rightarrow> nat) \<Rightarrow>
   ModelParams \<Rightarrow> OptimizationParams \<Rightarrow> PipelineParams \<Rightarrow> bool \<Rightarrow> bool \<Rightarrow>
   int list \<Rightarrow> int list \<Rightarrow> string option \<Rightarrow> int \<Rightarrow> ('v, 'p, 'v loop_state) prog" where
  "training torch_load cams entropy dataset opt0 pipe0 light outdoor
       testing_iterations save_iterations checkpoint debug_from =
    (let first_iter0 = (0::int) in
    and_then (emit PrepareOutputAndLogger) (\<lambda>_.
    (let opt = adapt opt0 light outdoor in
    and_then (emit SceneSetup) (\<lambda>_.
    and_then (if checkpoint_truthy checkpoint
              then and_then (lift (torch_load (the checkpoint))) (\<lambda>(model_params, first_iter).
                   and_then (emit (Restore model_params)) (\<lambda>_. ret first_iter))
              else ret first_iter0) (\<lambda>first_iter.
    (let first_iter = first_iter + 1 in
    for_loop
      (\<lambda>iteration. iteration_body cams (entropy iteration) dataset opt light
                      testing_iterations save_iterations debug_from iteration)
      [first_iter .. iterations opt]
      \<lparr>viewpoint_stack = None, pipe = pipe0\<rparr>))))))"

text \<open>The iterations a run entered, read off its calls.\<close>

fun executed_iterations :: "('v, 'p) event list \<Rightarrow> int list" where
  "executed_iterations [] = []"
| "executed_iterations (UpdateLearningRate i # es) = i # executed_iterations es"
| "executed_iterations (_ # es) = executed_iterations es"

text \<open>The views a run rendered, in order.\<close>

fun rendered_views :: "('v, 'p) event list \<Rightarrow> 'v list" where
  "rendered_views [] = []"
| "rendered_views (Render v d # es) = v # rendered_views es"
| "rendered_views (_ # es) = rendered_views es"

text \<open>
  The calls that change the population: \<^verbatim>\<open>densify_and_prune\<close>, \<^verbatim>\<open>only_prune\<close>
  and \<^verbatim>\<open>reset_opacity\<close>.
\<close>

fun is_population_op :: "('v, 'p) event \<Rightarrow> bool" where
  "is_population_op (DensifyAndPrune _ _ _) = True"
| "is_population_op (OnlyPrune _ _) = True"
| "is_population_op (ResetOpacity _) = True"
| "is_population_op _ = False"

section \<open>Sequencing facts\<close>

lemma and_then_pair_Inr: "and_then (es, Inr x) f = (es @ fst (f x), snd (f x))"
  by (simp add: and_then_def split: prod.splits)

lemma and_then_pair_Inl: "and_then (es, Inl e) f = (es, Inl e)"
  by (simp add: and_then_def)

lemmas prog_simps = ret_def emit_def lift_def when_do_def and_then_pair_Inr and_then_pair_Inl

section \<open>The population-control dispatch in closed form\<close>

lemma population_control_growth:
  assumes "iteration < densify_until_iter opt"
    and "densification_interval opt \<noteq> 0" and "opacity_reset_interval opt \<noteq> 0"
  shows "(population_control dataset opt iteration :: ('v, 'p, unit) prog) =
    (AddDensificationStats #
     (if iteration > densify_from_iter opt \<and> iteration mod densification_interval opt = 0
      then [DensifyAndPrune (min_opacity opt) (mask_threshold opt)
              (if iteration > opacity_reset_interval opt
               then Some (remove_size_threshold opt) else None)]
      else []) @
     (if iteration mod opacity_reset_interval opt = 0
           \<or> (white_background dataset \<and> iteration = densify_from_iter opt)
      then [ResetOpacity (opacity_reset opt)] else []),
     Inr ())"
  using assms
  by (simp add: population_control_def py_mod_def prog_simps)

lemma population_control_post:
  assumes "\<not> iteration < densify_until_iter opt" and "opacity_reset_interval opt \<noteq> 0"
  shows "(population_control dataset opt iteration :: ('v, 'p, unit) prog) =
    ((if iteration mod 1000 = 0
      then [OnlyPrune (min_opacity opt) (mask_threshold opt)] else []) @
     (if iteration mod opacity_reset_interval opt = 0 \<and> iteration < reset_opacity_until opt
      then [ResetOpacity (opacity_reset opt)] else []),
     Inr ())"
  using assms
  by (simp add: population_control_def py_mod_def prog_simps)

lemma population_control_snd:
  assumes "densification_interval opt \<noteq> 0" and "opacity_reset_interval opt \<noteq> 0"
  shows "snd (population_control dataset opt iteration :: ('v, 'p, unit) prog) = Inr ()"
  using assms
  by (cases "iteration < densify_until_iter opt")
     (simp_all add: population_control_growth population_control_post)

lemma optimizer_step_eq:
  "(optimizer_step opt iteration :: ('v, 'p, unit) prog) =
     ((if iteration < iterations opt then [OptimizerStep, ZeroGrad] else []), Inr ())"
  by (simp add: optimizer_step_def prog_simps)

section \<open>View selection in closed form\<close>

lemma randint_pop:
  assumes "xs \<noteq> []"
  shows "and_then (lift (randint 0 (int (length xs) - 1) r)) (\<lambda>i. lift (pop xs i)) =
     (([], Inr (xs ! (r mod length xs),
              take (r mod length xs) xs @ drop (Suc (r mod length xs)) xs))
       :: ('v, 'p, 'a \<times> 'a list) prog)"
proof -
  have pos: "0 < length xs" using assms by simp
  have r: "randint 0 (int (length xs) - 1) r = Inr (int (r mod length xs))"
    using pos by (simp add: randint_def zmod_int)
  have p: "pop xs (int (r mod length xs)) =
      Inr (xs ! (r mod length xs), take (r mod length xs) xs @ drop (Suc (r mod length xs)) xs)"
    using pos by (simp add: pop_def Let_def not_le)
  show ?thesis by (simp add: r p prog_simps)
qed

lemma select_view_refill:
  assumes "stack_falsy stack" and "cams \<noteq> []"
  shows "(select_view cams stack r :: ('v, 'p, 'v \<times> 'v list) prog) =
     ([GetTrainCameras], Inr (cams ! (r mod length cams),
              take (r mod length cams) cams @ drop (Suc (r mod length cams)) cams))"
  using assms
  by (simp add: select_view_def randint_pop ret_def emit_def and_then_pair_Inr)

lemma select_view_keep:
  assumes "stack = Some xs" and "xs \<noteq> []"
  shows "(select_view cams stack r :: ('v, 'p, 'v \<times> 'v list) prog) =
     ([], Inr (xs ! (r mod length xs),
              take (r mod length xs) xs @ drop (Suc (r mod length xs)) xs))"
  using assms
  by (simp add: select_view_def stack_falsy_def randint_pop ret_def emit_def and_then_pair_Inr)

lemma select_view_empty:
  assumes "stack_falsy stack" and "cams = []"
  shows "(select_view cams stack r :: ('v, 'p, 'v \<times> 'v list) prog) =
     ([GetTrainCameras], Inl ValueError)"
  using assms by (simp add: select_view_def randint_def prog_simps)

lemma mset_remove_nth:
  "i < length xs \<Longrightarrow> add_mset (xs ! i) (mset (take i xs @ drop (Suc i) xs)) = mset xs"
  by (metis id_take_nth_drop mset.simps(2) mset_append union_mset_add_mset_right)

section \<open>One iteration in closed form\<close>

lemma iteration_body_completes:
  assumes sel: "select_view cams (viewpoint_stack st) r = (ses, Inr (cam, stk))"
    and pc: "snd (population_control dataset opt iteration :: ('v, 'p, unit) prog) = Inr ()"
  shows "(iteration_body cams r dataset opt light testing_iterations save_iterations
            debug_from iteration st :: ('v, 'p, 'v loop_state) prog) =
    (UpdateLearningRate iteration #
     (if iteration mod 1000 = 0 then [OneupSHdegree] else []) @ ses @
     Render cam (debug (if iteration - 1 = debug_from then (pipe st)\<lparr>debug := True\<rparr>
                        else pipe st)) #
     Backward #
     (if iteration mod 10 = 0 then [ProgressUpdate] else []) @
     (if iteration = iterations opt then [ProgressClose] else []) @
     TrainingReport iteration #
     (if iteration \<in> set save_iterations then [SceneSave iteration light] else []) @
     fst (population_control dataset opt iteration :: ('v, 'p, unit) prog) @
     (if iteration < iterations opt then [OptimizerStep, ZeroGrad] else []),
     Inr \<lparr>viewpoint_stack = Some stk,
          pipe = (if iteration - 1 = debug_from then (pipe st)\<lparr>debug := True\<rparr>
                  else pipe st)\<rparr>)"
proof -
  obtain pes where
    pc': "(population_control dataset opt iteration :: ('v, 'p, unit) prog) = (pes, Inr ())"
    by (metis pc prod.collapse)
  show ?thesis
    unfolding iteration_body_def sel pc' optimizer_step_eq Let_def
    by (simp add: prog_simps)
qed

lemmas iteration_body_eq = iteration_body_completes[OF _ population_control_snd]

lemma select_view_ok:
  assumes "cams \<noteq> []"
  shows "\<exists>ses cam stk.
           (select_view cams stack r :: ('v, 'p, 'v \<times> 'v list) prog) = (ses, Inr (cam, stk))
           \<and> (ses = [] \<or> ses = [GetTrainCameras])"
proof (cases "stack_falsy stack")
  case True
  then show ?thesis using assms by (simp add: select_view_refill)
next
  case False
  then obtain xs where "stack = Some xs" "xs \<noteq> []"
    by (auto simp: stack_falsy_def split: option.splits)
  then show ?thesis by (simp add: select_view_keep)
qed

lemma select_view_events:
  "e \<in> set (fst (select_view cams stack r :: ('v, 'p, 'v \<times> 'v list) prog))
     \<Longrightarrow> e = GetTrainCameras"
  by (auto simp add: select_view_def prog_simps and_then_def
      split: if_splits sum.splits prod.splits)

lemma filter_pop_select:
  "ses = [] \<or> ses = [GetTrainCameras] \<Longrightarrow> filter is_population_op ses = []"
  by auto

lemma and_then_events:
  "e \<in> set (fst (and_then m f)) \<Longrightarrow>
     e \<in> set (fst m) \<or> (\<exists>x. snd m = Inr x \<and> e \<in> set (fst (f x)))"
  by (cases m; cases "snd m") (auto simp: and_then_def split: prod.splits)

lemma population_control_no_step:
  "OptimizerStep \<notin> set (fst (population_control dataset opt iteration :: ('v, 'p, unit) prog))
   \<and> ZeroGrad \<notin> set (fst (population_control dataset opt iteration :: ('v, 'p, unit) prog))"
  by (simp add: population_control_def py_mod_def prog_simps)

lemma population_control_densify:
  assumes "DensifyAndPrune mo mt sz
             \<in> set (fst (population_control dataset opt iteration :: ('v, 'p, unit) prog))"
  shows "mo = min_opacity opt \<and> mt = mask_threshold opt
     \<and> sz = (if iteration > opacity_reset_interval opt
             then Some (remove_size_threshold opt) else None)
     \<and> densify_from_iter opt < iteration \<and> iteration < densify_until_iter opt
     \<and> densification_interval opt dvd iteration"
  using assms
  by (auto simp add: population_control_def py_mod_def prog_simps mod_eq_0_iff_dvd
      split: if_splits)

lemma example_select:
  "(select_view [0::nat] (viewpoint_stack \<lparr>viewpoint_stack = None, pipe = p\<rparr>) 0
      :: (nat, unit, nat \<times> nat list) prog) = ([GetTrainCameras], Inr (0, []))"
  by (simp add: select_view_refill stack_falsy_def)

lemma default_intervals:
  "densification_interval OptimizationParams_init \<noteq> 0"
  "opacity_reset_interval OptimizationParams_init \<noteq> 0"
  by (simp_all add: OptimizationParams_init_def)

section \<open>The optimizer step\<close>

text \<open>
  C1, as the code has it. When the training views are not empty and the two
  intervals are not zero, every iteration completes, and its calls end with the
  population-control dispatch followed by the optimizer step and the clearing of the
  gradients exactly when the iteration is strictly below the configured total
  (\<^verbatim>\<open>if iteration < opt.iterations\<close>); at the last iteration, and past it, neither
  call is made.
\<close>

theorem optimizer_step_guard:
  assumes "cams \<noteq> []"
    and "densification_interval opt \<noteq> 0" and "opacity_reset_interval opt \<noteq> 0"
  shows "\<not> isl (snd (iteration_body cams r dataset opt light testing_iterations
                      save_iterations debug_from iteration st :: ('v, 'p, 'v loop_state) prog))
    \<and> suffix (fst (population_control dataset opt iteration :: ('v, 'p, unit) prog)
               @ (if iteration < iterations opt then [OptimizerStep, ZeroGrad] else []))
         (fst (iteration_body cams r dataset opt light testing_iterations
                 save_iterations debug_from iteration st :: ('v, 'p, 'v loop_state) prog))
    \<and> count_list (fst (iteration_body cams r dataset opt light testing_iterations
                 save_iterations debug_from iteration st :: ('v, 'p, 'v loop_state) prog))
         OptimizerStep = (if iteration < iterations opt then 1 else 0)
    \<and> count_list (fst (iteration_body cams r dataset opt light testing_iterations
                 save_iterations debug_from iteration st :: ('v, 'p, 'v loop_state) prog))
         ZeroGrad = (if iteration < iterations opt then 1 else 0)"
proof -
  obtain ses cam stk where
    sel: "(select_view cams (viewpoint_stack st) r :: ('v, 'p, 'v \<times> 'v list) prog)
            = (ses, Inr (cam, stk))"
    and ses: "ses = [] \<or> ses = [GetTrainCameras]"
    using select_view_ok[OF assms(1)] by blast
  note body = iteration_body_eq[OF sel assms(2,3)]
  have pc:
    "count_list (fst (population_control dataset opt iteration :: ('v, 'p, unit) prog))
       OptimizerStep = 0"
    "count_list (fst (population_control dataset opt iteration :: ('v, 'p, unit) prog))
       ZeroGrad = 0"
    by (simp_all add: count_list_0_iff population_control_no_step)
  have 1: "\<not> isl (snd (iteration_body cams r dataset opt light testing_iterations
                      save_iterations debug_from iteration st :: ('v, 'p, 'v loop_state) prog))"
    by (simp add: body)
  have 2: "suffix (fst (population_control dataset opt iteration :: ('v, 'p, unit) prog)
               @ (if iteration < iterations opt then [OptimizerStep, ZeroGrad] else []))
         (fst (iteration_body cams r dataset opt light testing_iterations
                 save_iterations debug_from iteration st :: ('v, 'p, 'v loop_state) prog))"
    unfolding body fst_conv suffix_def
    by (metis append.assoc append_Cons)
  have 3: "count_list (fst (iteration_body cams r dataset opt light testing_iterations
                 save_iterations debug_from iteration st :: ('v, 'p, 'v loop_state) prog))
         OptimizerStep = (if iteration < iterations opt then 1 else 0)"
    using ses pc by (auto simp add: body)
  have 4: "count_list (fst (iteration_body cams r dataset opt light testing_iterations
                 save_iterations debug_from iteration st :: ('v, 'p, 'v loop_state) prog))
         ZeroGrad = (if iteration < iterations opt then 1 else 0)"
    using ses pc by (auto simp add: body)
  show ?thesis using 1 2 3 4 by blast
qed

text \<open>
  On the default configuration with one training view: iteration 29999 makes one
  optimizer step, iteration 30000 none.
\<close>

theorem optimizer_step_guard_witness:
  "[0::nat] \<noteq> [] \<and> densification_interval OptimizationParams_init \<noteq> 0
   \<and> opacity_reset_interval OptimizationParams_init \<noteq> 0
   \<and> count_list (fst (iteration_body [0::nat] 0 ModelParams_init OptimizationParams_init
        False [] [] (- 1) 29999
        \<lparr>viewpoint_stack = None, pipe = PipelineParams_init\<rparr>
          :: (nat, unit, nat loop_state) prog))
        OptimizerStep = 1
   \<and> count_list (fst (iteration_body [0::nat] 0 ModelParams_init OptimizationParams_init
        False [] [] (- 1) 30000
        \<lparr>viewpoint_stack = None, pipe = PipelineParams_init\<rparr>
          :: (nat, unit, nat loop_state) prog))
        OptimizerStep = 0"
proof -
  have c: "[0::nat] \<noteq> []" by simp
  note di = default_intervals(1) and ri = default_intervals(2)
  show ?thesis
    using optimizer_step_guard[OF c di ri, of 0 ModelParams_init False "[]" "[]" "- 1" 29999
        "\<lparr>viewpoint_stack = None, pipe = PipelineParams_init\<rparr>", where ?'p = unit]
      optimizer_step_guard[OF c di ri, of 0 ModelParams_init False "[]" "[]" "- 1" 30000
        "\<lparr>viewpoint_stack = None, pipe = PipelineParams_init\<rparr>", where ?'p = unit]
      di ri
    by (simp add: OptimizationParams_init_def)
qed

text \<open>
  The claim as the specification words it fails at the last iteration: with the
  default total of 30000, iteration 30000 completes and makes no optimizer step.
\<close>

theorem optimizer_step_last_iteration_counterexample:
  "OptimizerStep \<notin> set (fst (iteration_body [0::nat] 0 ModelParams_init OptimizationParams_init
        False [7000, 30000] [7000, 30000, 30000] (- 1) 30000
        \<lparr>viewpoint_stack = None, pipe = PipelineParams_init\<rparr>
          :: (nat, unit, nat loop_state) prog))
   \<and> \<not> isl (snd (iteration_body [0::nat] 0 ModelParams_init OptimizationParams_init
        False [7000, 30000] [7000, 30000, 30000] (- 1) 30000
        \<lparr>viewpoint_stack = None, pipe = PipelineParams_init\<rparr>
          :: (nat, unit, nat loop_state) prog))
   \<and> iterations OptimizationParams_init = 30000"
proof -
  have post: "\<not> (30000::int) < densify_until_iter OptimizationParams_init"
    by (simp add: OptimizationParams_init_def)
  show ?thesis
    unfolding iteration_body_eq[OF example_select default_intervals]
      population_control_post[OF post default_intervals(2)]
    by (simp add: OptimizationParams_init_def)
qed

section \<open>The cadence of population control\<close>

text \<open>
  C3. At an iteration at or past \<open>densify_until_iter\<close> (training views not empty,
  opacity-reset interval not zero) the iteration completes and its population operations are
  exactly: \<open>only_prune\<close> with the minimum-opacity and mask thresholds when the
  iteration is divisible by 1000, then an opacity reset when the iteration is a
  multiple of the opacity-reset interval and strictly below \<open>reset_opacity_until\<close>.
  No \<open>densify_and_prune\<close> is among them.
\<close>

theorem post_growth_dispatch:
  assumes "cams \<noteq> []" and "opacity_reset_interval opt \<noteq> 0"
    and "densify_until_iter opt \<le> iteration"
  shows "\<not> isl (snd (iteration_body cams r dataset opt light testing_iterations
                      save_iterations debug_from iteration st :: ('v, 'p, 'v loop_state) prog))
    \<and> filter is_population_op
         (fst (iteration_body cams r dataset opt light testing_iterations
                 save_iterations debug_from iteration st :: ('v, 'p, 'v loop_state) prog)) =
       (if 1000 dvd iteration
        then [OnlyPrune (min_opacity opt) (mask_threshold opt)] else []) @
       (if opacity_reset_interval opt dvd iteration \<and> iteration < reset_opacity_until opt
        then [ResetOpacity (opacity_reset opt)] else [])"
proof -
  obtain ses cam stk where
    sel: "(select_view cams (viewpoint_stack st) r :: ('v, 'p, 'v \<times> 'v list) prog)
            = (ses, Inr (cam, stk))"
    and ses: "ses = [] \<or> ses = [GetTrainCameras]"
    using select_view_ok[OF assms(1)] by blast
  have post: "\<not> iteration < densify_until_iter opt" using assms(3) by simp
  note pc = population_control_post[OF post assms(2)]
  have body: "(iteration_body cams r dataset opt light testing_iterations save_iterations
            debug_from iteration st :: ('v, 'p, 'v loop_state) prog) =
    (UpdateLearningRate iteration #
     (if iteration mod 1000 = 0 then [OneupSHdegree] else []) @ ses @
     Render cam (debug (if iteration - 1 = debug_from then (pipe st)\<lparr>debug := True\<rparr>
                        else pipe st)) #
     Backward #
     (if iteration mod 10 = 0 then [ProgressUpdate] else []) @
     (if iteration = iterations opt then [ProgressClose] else []) @
     TrainingReport iteration #
     (if iteration \<in> set save_iterations then [SceneSave iteration light] else []) @
     fst (population_control dataset opt iteration :: ('v, 'p, unit) prog) @
     (if iteration < iterations opt then [OptimizerStep, ZeroGrad] else []),
     Inr \<lparr>viewpoint_stack = Some stk,
          pipe = (if iteration - 1 = debug_from then (pipe st)\<lparr>debug := True\<rparr>
                  else pipe st)\<rparr>)"
    by (rule iteration_body_completes[OF sel]) (simp add: pc)
  show ?thesis
    using filter_pop_select[OF ses]
    by (simp add: body pc mod_eq_0_iff_dvd)
qed

text \<open>
  With the reset deadline moved to 18000, iteration 12000 prunes and resets; with
  the default deadline of 9000 it only prunes.
\<close>

theorem post_growth_dispatch_witness:
  "[0::nat] \<noteq> [] \<and> opacity_reset_interval OptimizationParams_init \<noteq> 0
   \<and> densify_until_iter OptimizationParams_init \<le> 12000
   \<and> filter is_population_op
        (fst (iteration_body [0::nat] 0 ModelParams_init OptimizationParams_init
           False [] [] (- 1) 12000
           \<lparr>viewpoint_stack = None, pipe = PipelineParams_init\<rparr>
             :: (nat, unit, nat loop_state) prog)) = [OnlyPrune 0.03 0.01]
   \<and> filter is_population_op
        (fst (iteration_body [0::nat] 0 ModelParams_init
           (OptimizationParams_init\<lparr>reset_opacity_until := 18000\<rparr>)
           False [] [] (- 1) 12000
           \<lparr>viewpoint_stack = None, pipe = PipelineParams_init\<rparr>
             :: (nat, unit, nat loop_state) prog)) = [OnlyPrune 0.03 0.01, ResetOpacity 0.2]"
proof -
  have c: "[0::nat] \<noteq> []" by simp
  note ri = default_intervals(2)
  have u: "densify_until_iter OptimizationParams_init \<le> 12000"
    by (simp add: OptimizationParams_init_def)
  have ri': "opacity_reset_interval (OptimizationParams_init\<lparr>reset_opacity_until := 18000\<rparr>) \<noteq> 0"
    and u': "densify_until_iter (OptimizationParams_init\<lparr>reset_opacity_until := 18000\<rparr>) \<le> 12000"
    by (simp_all add: OptimizationParams_init_def)
  show ?thesis
    using post_growth_dispatch[OF c ri u, of 0 ModelParams_init False "[]" "[]" "- 1"
        "\<lparr>viewpoint_stack = None, pipe = PipelineParams_init\<rparr>", where ?'p = unit]
      post_growth_dispatch[OF c ri' u', of 0 ModelParams_init False "[]" "[]" "- 1"
        "\<lparr>viewpoint_stack = None, pipe = PipelineParams_init\<rparr>", where ?'p = unit]
      ri u
    by (simp add: OptimizationParams_init_def)
qed

text \<open>
  C4, as the code has it. At a growth-phase iteration (training views not empty,
  intervals not zero) the iteration completes and its population operations are: the
  densify-and-prune step when the iteration is strictly greater than
  \<open>densify_from_iter\<close> and a multiple of the densification interval, then one opacity
  reset when the iteration is a multiple of the opacity-reset interval or, with a
  white background, equal to \<open>densify_from_iter\<close>. That iteration is the last at which
  densify-and-prune is not yet eligible, not one at which it runs.
\<close>

theorem growth_opacity_reset:
  assumes "cams \<noteq> []" and "opacity_reset_interval opt \<noteq> 0"
    and "densification_interval opt \<noteq> 0"
    and "iteration < densify_until_iter opt"
  shows "\<not> isl (snd (iteration_body cams r dataset opt light testing_iterations
                      save_iterations debug_from iteration st :: ('v, 'p, 'v loop_state) prog))
    \<and> filter is_population_op
         (fst (iteration_body cams r dataset opt light testing_iterations
                 save_iterations debug_from iteration st :: ('v, 'p, 'v loop_state) prog)) =
       (if densify_from_iter opt < iteration \<and> densification_interval opt dvd iteration
        then [DensifyAndPrune (min_opacity opt) (mask_threshold opt)
                (if iteration > opacity_reset_interval opt
                 then Some (remove_size_threshold opt) else None)]
        else []) @
       (if opacity_reset_interval opt dvd iteration
           \<or> (white_background dataset \<and> iteration = densify_from_iter opt)
        then [ResetOpacity (opacity_reset opt)] else [])"
proof -
  obtain ses cam stk where
    sel: "(select_view cams (viewpoint_stack st) r :: ('v, 'p, 'v \<times> 'v list) prog)
            = (ses, Inr (cam, stk))"
    and ses: "ses = [] \<or> ses = [GetTrainCameras]"
    using select_view_ok[OF assms(1)] by blast
  note body = iteration_body_eq[OF sel assms(3,2)]
  show ?thesis
    using filter_pop_select[OF ses]
    by (simp add: body population_control_growth[OF assms(4,3,2)] mod_eq_0_iff_dvd)
qed

text \<open>
  Default configuration, white background: iteration 3000 densifies and resets,
  iteration 500 only resets.
\<close>

theorem growth_opacity_reset_witness:
  "[0::nat] \<noteq> [] \<and> opacity_reset_interval OptimizationParams_init \<noteq> 0
   \<and> densification_interval OptimizationParams_init \<noteq> 0
   \<and> 3000 < densify_until_iter OptimizationParams_init
   \<and> 500 < densify_until_iter OptimizationParams_init
   \<and> filter is_population_op
        (fst (iteration_body [0::nat] 0 (ModelParams_init\<lparr>white_background := True\<rparr>)
           OptimizationParams_init False [] [] (- 1) 3000
           \<lparr>viewpoint_stack = None, pipe = PipelineParams_init\<rparr>
             :: (nat, unit, nat loop_state) prog))
        = [DensifyAndPrune 0.03 0.01 None, ResetOpacity 0.2]
   \<and> filter is_population_op
        (fst (iteration_body [0::nat] 0 (ModelParams_init\<lparr>white_background := True\<rparr>)
           OptimizationParams_init False [] [] (- 1) 500
           \<lparr>viewpoint_stack = None, pipe = PipelineParams_init\<rparr>
             :: (nat, unit, nat loop_state) prog))
        = [ResetOpacity 0.2]"
proof -
  have c: "[0::nat] \<noteq> []" by simp
  note di = default_intervals(1) and ri = default_intervals(2)
  have u: "3000 < densify_until_iter OptimizationParams_init"
    and u': "500 < densify_until_iter OptimizationParams_init"
    by (simp_all add: OptimizationParams_init_def)
  show ?thesis
    using growth_opacity_reset[OF c ri di u, of 0 "ModelParams_init\<lparr>white_background := True\<rparr>"
        False "[]" "[]" "- 1"
        "\<lparr>viewpoint_stack = None, pipe = PipelineParams_init\<rparr>", where ?'p = unit]
      growth_opacity_reset[OF c ri di u', of 0 "ModelParams_init\<lparr>white_background := True\<rparr>"
        False "[]" "[]" "- 1"
        "\<lparr>viewpoint_stack = None, pipe = PipelineParams_init\<rparr>", where ?'p = unit]
      di ri u u'
    by (simp add: OptimizationParams_init_def ModelParams_init_def)
qed

text \<open>
  The claim as the specification words it fails on the default configuration with a
  white background: the additional reset is made at iteration 500, which is no
  multiple of 3000 and at which densify-and-prune does not run; at iteration 600, the
  first at which densify-and-prune runs, no reset is made.
\<close>

theorem white_background_reset_counterexample:
  "filter is_population_op
      (fst (iteration_body [0::nat] 0 (ModelParams_init\<lparr>white_background := True\<rparr>)
         OptimizationParams_init False [] [] (- 1) 500
         \<lparr>viewpoint_stack = None, pipe = PipelineParams_init\<rparr>
           :: (nat, unit, nat loop_state) prog))
      = [ResetOpacity 0.2]
   \<and> \<not> opacity_reset_interval OptimizationParams_init dvd 500
   \<and> filter is_population_op
      (fst (iteration_body [0::nat] 0 (ModelParams_init\<lparr>white_background := True\<rparr>)
         OptimizationParams_init False [] [] (- 1) 600
         \<lparr>viewpoint_stack = None, pipe = PipelineParams_init\<rparr>
           :: (nat, unit, nat loop_state) prog))
      = [DensifyAndPrune 0.03 0.01 None]"
proof -
  have g: "(500::int) < densify_until_iter OptimizationParams_init"
    and g': "(600::int) < densify_until_iter OptimizationParams_init"
    by (simp_all add: OptimizationParams_init_def)
  show ?thesis
    unfolding iteration_body_eq[OF example_select default_intervals]
      population_control_growth[OF g default_intervals]
      population_control_growth[OF g' default_intervals]
    by (simp add: OptimizationParams_init_def ModelParams_init_def)
qed

text \<open>
  C5. Whenever an iteration calls densify-and-prune, the call passes the configured
  minimum-opacity and mask thresholds, and the size threshold it passes is the
  configured \<open>remove_size_threshold\<close> if the iteration is strictly greater than the
  gating iteration (\<open>opacity_reset_interval\<close>) and \<^verbatim>\<open>None\<close> otherwise. Such a call is
  made only in the growth phase, past \<open>densify_from_iter\<close>, on a multiple of the
  densification interval.
\<close>

theorem densify_size_gate:
  assumes "DensifyAndPrune mo mt sz
     \<in> set (fst (iteration_body cams r dataset opt light testing_iterations
                 save_iterations debug_from iteration st :: ('v, 'p, 'v loop_state) prog))"
  shows "mo = min_opacity opt \<and> mt = mask_threshold opt
     \<and> sz = (if iteration > opacity_reset_interval opt
             then Some (remove_size_threshold opt) else None)
     \<and> densify_from_iter opt < iteration \<and> iteration < densify_until_iter opt
     \<and> densification_interval opt dvd iteration"
proof -
  have "DensifyAndPrune mo mt sz
      \<in> set (fst (population_control dataset opt iteration :: ('v, 'p, unit) prog))"
    using assms unfolding iteration_body_def Let_def
    by (auto dest!: and_then_events select_view_events
        simp: prog_simps optimizer_step_eq split: if_splits)
  then show ?thesis by (rule population_control_densify)
qed

text \<open>
  Default configuration: the call of iteration 3200 carries the size threshold, the
  call of iteration 3000 does not.
\<close>

theorem densify_size_gate_witness:
  "DensifyAndPrune 0.03 0.01 (Some 0.3)
     \<in> set (fst (iteration_body [0::nat] 0 ModelParams_init OptimizationParams_init
           False [] [] (- 1) 3200
           \<lparr>viewpoint_stack = None, pipe = PipelineParams_init\<rparr>
             :: (nat, unit, nat loop_state) prog))
   \<and> Some (0.3::rat) = (if 3200 > opacity_reset_interval OptimizationParams_init
                        then Some (remove_size_threshold OptimizationParams_init) else None)
   \<and> DensifyAndPrune 0.03 0.01 None
     \<in> set (fst (iteration_body [0::nat] 0 ModelParams_init OptimizationParams_init
           False [] [] (- 1) 3000
           \<lparr>viewpoint_stack = None, pipe = PipelineParams_init\<rparr>
             :: (nat, unit, nat loop_state) prog))
   \<and> (None :: rat option) = (if 3000 > opacity_reset_interval OptimizationParams_init
                        then Some (remove_size_threshold OptimizationParams_init) else None)"
proof -
  have g: "(3200::int) < densify_until_iter OptimizationParams_init"
    and g': "(3000::int) < densify_until_iter OptimizationParams_init"
    by (simp_all add: OptimizationParams_init_def)
  have m: "DensifyAndPrune 0.03 0.01 (Some 0.3)
     \<in> set (fst (iteration_body [0::nat] 0 ModelParams_init OptimizationParams_init
           False [] [] (- 1) 3200
           \<lparr>viewpoint_stack = None, pipe = PipelineParams_init\<rparr>
             :: (nat, unit, nat loop_state) prog))"
    unfolding iteration_body_eq[OF example_select default_intervals]
      population_control_growth[OF g default_intervals]
    by (simp add: OptimizationParams_init_def)
  have m': "DensifyAndPrune 0.03 0.01 None
     \<in> set (fst (iteration_body [0::nat] 0 ModelParams_init OptimizationParams_init
           False [] [] (- 1) 3000
           \<lparr>viewpoint_stack = None, pipe = PipelineParams_init\<rparr>
             :: (nat, unit, nat loop_state) prog))"
    unfolding iteration_body_eq[OF example_select default_intervals]
      population_control_growth[OF g' default_intervals]
    by (simp add: OptimizationParams_init_def)
  show ?thesis
    using m m' densify_size_gate[OF m] densify_size_gate[OF m'] by blast
qed

section \<open>The loop as a whole\<close>

lemma executed_iterations_append:
  "executed_iterations (xs @ ys) = executed_iterations xs @ executed_iterations ys"
  by (induction xs rule: executed_iterations.induct) simp_all

lemma rendered_views_append:
  "rendered_views (xs @ ys) = rendered_views xs @ rendered_views ys"
  by (induction xs rule: rendered_views.induct) simp_all

lemma population_control_quiet:
  "executed_iterations (fst (population_control dataset opt iteration :: ('v, 'p, unit) prog)) = []"
  "rendered_views (fst (population_control dataset opt iteration :: ('v, 'p, unit) prog)) = []"
  "GetTrainCameras \<notin> set (fst (population_control dataset opt iteration :: ('v, 'p, unit) prog))"
  "Restore p \<notin> set (fst (population_control dataset opt iteration :: ('v, 'p, unit) prog))"
  by (simp_all add: population_control_def py_mod_def prog_simps)

lemma iteration_body_summary:
  assumes sel: "(select_view cams (viewpoint_stack st) r :: ('v, 'p, 'v \<times> 'v list) prog)
                  = (ses, Inr (cam, stk))"
    and ses: "ses = [] \<or> ses = [GetTrainCameras]"
    and di: "densification_interval opt \<noteq> 0" and ri: "opacity_reset_interval opt \<noteq> 0"
  shows "\<exists>es st'. (iteration_body cams r dataset opt light testing_iterations save_iterations
            debug_from iteration st :: ('v, 'p, 'v loop_state) prog) = (es, Inr st')
      \<and> viewpoint_stack st' = Some stk
      \<and> executed_iterations es = [iteration]
      \<and> rendered_views es = [cam]
      \<and> count_list es GetTrainCameras = length ses
      \<and> (\<forall>p. Restore p \<notin> set es)"
  using ses
  by (auto simp add: iteration_body_eq[OF sel di ri] executed_iterations_append
      rendered_views_append population_control_quiet count_list_0_iff)


lemma for_loop_completes:
  assumes c: "cams \<noteq> []"
    and di: "densification_interval opt \<noteq> 0" and ri: "opacity_reset_interval opt \<noteq> 0"
  shows "\<exists>es st'. (for_loop (\<lambda>i. iteration_body cams (entropy i) dataset opt light
                       testing_iterations save_iterations debug_from i) its st
                    :: ('v, 'p, 'v loop_state) prog) = (es, Inr st')
           \<and> executed_iterations es = its \<and> (\<forall>p. Restore p \<notin> set es)"
proof (induction its arbitrary: st)
  case Nil
  show ?case by (simp add: ret_def)
next
  case (Cons i rest)
  obtain ses cam stk where
    sel: "(select_view cams (viewpoint_stack st) (entropy i) :: ('v, 'p, 'v \<times> 'v list) prog)
            = (ses, Inr (cam, stk))"
    and ses: "ses = [] \<or> ses = [GetTrainCameras]"
    using select_view_ok[OF c] by blast
  obtain bes st1 where
    b: "(iteration_body cams (entropy i) dataset opt light testing_iterations save_iterations
            debug_from i st :: ('v, 'p, 'v loop_state) prog) = (bes, Inr st1)"
    and be: "executed_iterations bes = [i]" and br: "\<forall>p. Restore p \<notin> set bes"
    using iteration_body_summary[OF sel ses di ri] by blast
  obtain es st' where
    l: "(for_loop (\<lambda>i. iteration_body cams (entropy i) dataset opt light
                       testing_iterations save_iterations debug_from i) rest st1
                    :: ('v, 'p, 'v loop_state) prog) = (es, Inr st')"
    and le: "executed_iterations es = rest" and lr: "\<forall>p. Restore p \<notin> set es"
    using Cons.IH by blast
  show ?case
    using be br le lr
    by (simp add: b l and_then_pair_Inr executed_iterations_append)
qed

lemma for_loop_drain:
  assumes di: "densification_interval opt \<noteq> 0" and ri: "opacity_reset_interval opt \<noteq> 0"
    and "viewpoint_stack st = Some xs" and "length its = length xs"
  shows "\<exists>es st'. (for_loop (\<lambda>i. iteration_body cams (entropy i) dataset opt light
                       testing_iterations save_iterations debug_from i) its st
                    :: ('v, 'p, 'v loop_state) prog) = (es, Inr st')
           \<and> mset (rendered_views es) = mset xs
           \<and> count_list es GetTrainCameras = 0
           \<and> viewpoint_stack st' = Some []"
  using assms(3,4)
proof (induction its arbitrary: st xs)
  case Nil
  then show ?case by (simp add: ret_def)
next
  case (Cons i rest)
  then have ne: "xs \<noteq> []" by auto
  define j where "j = entropy i mod length xs"
  have jl: "j < length xs" using ne by (simp add: j_def)
  have sel: "(select_view cams (viewpoint_stack st) (entropy i) :: ('v, 'p, 'v \<times> 'v list) prog)
            = ([], Inr (xs ! j, take j xs @ drop (Suc j) xs))"
    unfolding j_def by (rule select_view_keep[OF Cons.prems(1) ne])
  obtain bes st1 where
    b: "(iteration_body cams (entropy i) dataset opt light testing_iterations save_iterations
            debug_from i st :: ('v, 'p, 'v loop_state) prog) = (bes, Inr st1)"
    and bs: "viewpoint_stack st1 = Some (take j xs @ drop (Suc j) xs)"
    and bv: "rendered_views bes = [xs ! j]"
    and bg: "count_list bes GetTrainCameras = 0"
    using iteration_body_summary[OF sel _ di ri] by fastforce
  have len: "length rest = length (take j xs @ drop (Suc j) xs)"
    using Cons.prems(2) jl by simp
  obtain es st' where
    l: "(for_loop (\<lambda>i. iteration_body cams (entropy i) dataset opt light
                       testing_iterations save_iterations debug_from i) rest st1
                    :: ('v, 'p, 'v loop_state) prog) = (es, Inr st')"
    and lv: "mset (rendered_views es) = mset (take j xs @ drop (Suc j) xs)"
    and lg: "count_list es GetTrainCameras = 0"
    and ls: "viewpoint_stack st' = Some []"
    using Cons.IH[OF bs len] by blast
  have "mset (rendered_views (bes @ es)) = mset xs"
    using mset_remove_nth[OF jl] by (simp add: rendered_views_append bv lv)
  then show ?case
    using bg lg ls by (simp add: b l and_then_pair_Inr)
qed

lemma for_loop_cycle:
  assumes c: "cams \<noteq> []"
    and di: "densification_interval opt \<noteq> 0" and ri: "opacity_reset_interval opt \<noteq> 0"
    and f: "stack_falsy (viewpoint_stack st)" and len: "length its = length cams"
  shows "\<exists>es st'. (for_loop (\<lambda>i. iteration_body cams (entropy i) dataset opt light
                       testing_iterations save_iterations debug_from i) its st
                    :: ('v, 'p, 'v loop_state) prog) = (es, Inr st')
           \<and> mset (rendered_views es) = mset cams
           \<and> count_list es GetTrainCameras = 1
           \<and> viewpoint_stack st' = Some []"
proof -
  obtain i rest where its: "its = i # rest" using c len by (cases its) auto
  define j where "j = entropy i mod length cams"
  have jl: "j < length cams" using c by (simp add: j_def)
  have sel: "(select_view cams (viewpoint_stack st) (entropy i) :: ('v, 'p, 'v \<times> 'v list) prog)
            = ([GetTrainCameras], Inr (cams ! j, take j cams @ drop (Suc j) cams))"
    unfolding j_def by (rule select_view_refill[OF f c])
  obtain bes st1 where
    b: "(iteration_body cams (entropy i) dataset opt light testing_iterations save_iterations
            debug_from i st :: ('v, 'p, 'v loop_state) prog) = (bes, Inr st1)"
    and bs: "viewpoint_stack st1 = Some (take j cams @ drop (Suc j) cams)"
    and bv: "rendered_views bes = [cams ! j]"
    and bg: "count_list bes GetTrainCameras = 1"
    using iteration_body_summary[OF sel _ di ri] by fastforce
  have len': "length rest = length (take j cams @ drop (Suc j) cams)"
    using len jl its by simp
  obtain es st' where
    l: "(for_loop (\<lambda>i. iteration_body cams (entropy i) dataset opt light
                       testing_iterations save_iterations debug_from i) rest st1
                    :: ('v, 'p, 'v loop_state) prog) = (es, Inr st')"
    and lv: "mset (rendered_views es) = mset (take j cams @ drop (Suc j) cams)"
    and lg: "count_list es GetTrainCameras = 0"
    and ls: "viewpoint_stack st' = Some []"
    using for_loop_drain[OF di ri bs len'] by blast
  have "mset (rendered_views (bes @ es)) = mset cams"
    using mset_remove_nth[OF jl] by (simp add: rendered_views_append bv lv)
  then show ?thesis
    using bg lg ls by (simp add: its b l and_then_pair_Inr)
qed


lemma hd_last_upto:
  assumes "i \<le> j"
  shows "hd [i..j] = i \<and> last [i..j] = j"
proof -
  have "[i..j] = i # [i + 1..j]" using assms by (rule upto_rec1)
  moreover have "[i..j] = [i..j - 1] @ [j]" using assms by (rule upto_rec2)
  ultimately show ?thesis by (metis last_snoc list.sel(1))
qed

lemma adapt_keeps_loop_fields:
  "densification_interval (adapt opt light outdoor) = densification_interval opt"
  "opacity_reset_interval (adapt opt light outdoor) = opacity_reset_interval opt"
  "iterations (adapt opt light outdoor) = iterations opt"
  by (simp_all add: adapt_def Let_def)

lemma training_with_checkpoint:
  assumes c: "cams \<noteq> []"
    and di: "densification_interval opt0 \<noteq> 0" and ri: "opacity_reset_interval opt0 \<noteq> 0"
    and ct: "checkpoint_truthy checkpoint" and tl: "torch_load (the checkpoint) = Inr (mp, k)"
  shows "\<exists>es st'. (training torch_load cams entropy dataset opt0 pipe0 light outdoor
             testing_iterations save_iterations checkpoint debug_from
             :: ('v, 'p, 'v loop_state) prog)
           = (PrepareOutputAndLogger # SceneSetup # Restore mp # es, Inr st')
         \<and> executed_iterations es = [k + 1 .. iterations opt0]
         \<and> (\<forall>p. Restore p \<notin> set es)"
proof -
  obtain es st' where
    l: "(for_loop (\<lambda>i. iteration_body cams (entropy i) dataset (adapt opt0 light outdoor) light
                       testing_iterations save_iterations debug_from i)
           [k + 1 .. iterations opt0] \<lparr>viewpoint_stack = None, pipe = pipe0\<rparr>
                    :: ('v, 'p, 'v loop_state) prog) = (es, Inr st')"
    and le: "executed_iterations es = [k + 1 .. iterations opt0]"
    and lr: "\<forall>p. Restore p \<notin> set es"
    using for_loop_completes[OF c, of "adapt opt0 light outdoor"] di ri
    by (metis adapt_keeps_loop_fields(1,2))
  show ?thesis
    using le lr
    by (simp add: training_def Let_def ct tl prog_simps adapt_keeps_loop_fields l)
qed

lemma training_without_checkpoint:
  assumes c: "cams \<noteq> []"
    and di: "densification_interval opt0 \<noteq> 0" and ri: "opacity_reset_interval opt0 \<noteq> 0"
    and ct: "\<not> checkpoint_truthy checkpoint"
  shows "\<exists>es st'. (training torch_load cams entropy dataset opt0 pipe0 light outdoor
             testing_iterations save_iterations checkpoint debug_from
             :: ('v, 'p, 'v loop_state) prog)
           = (PrepareOutputAndLogger # SceneSetup # es, Inr st')
         \<and> executed_iterations es = [1 .. iterations opt0]
         \<and> (\<forall>p. Restore p \<notin> set es)"
proof -
  obtain es st' where
    l: "(for_loop (\<lambda>i. iteration_body cams (entropy i) dataset (adapt opt0 light outdoor) light
                       testing_iterations save_iterations debug_from i)
           [1 .. iterations opt0] \<lparr>viewpoint_stack = None, pipe = pipe0\<rparr>
                    :: ('v, 'p, 'v loop_state) prog) = (es, Inr st')"
    and le: "executed_iterations es = [1 .. iterations opt0]"
    and lr: "\<forall>p. Restore p \<notin> set es"
    using for_loop_completes[OF c, of "adapt opt0 light outdoor"] di ri
    by (metis adapt_keeps_loop_fields(1,2))
  show ?thesis
    using le lr
    by (simp add: training_def Let_def ct prog_simps adapt_keeps_loop_fields l)
qed

text \<open>
  C2. Training views not empty, intervals not zero. If the checkpoint argument is a
  non-empty path and \<^verbatim>\<open>torch.load\<close> returns the stored pair of model parameters and
  iteration \<open>k\<close>, the run completes, restores exactly these parameters once, before
  the loop, and the iterations it executes are \<open>k + 1, ..., N\<close> in order, where \<open>N\<close> is
  the configured total: the first is \<open>k + 1\<close> and the last \<open>N\<close> whenever \<open>k < N\<close>. If
  the checkpoint argument is \<^verbatim>\<open>None\<close> or empty, nothing is restored and the executed
  iterations are \<open>1, ..., N\<close>.
\<close>

theorem checkpoint_resume:
  assumes c: "cams \<noteq> []"
    and di: "densification_interval opt \<noteq> 0" and ri: "opacity_reset_interval opt \<noteq> 0"
  shows "(checkpoint_truthy checkpoint \<and> torch_load (the checkpoint) = Inr (mp, k) \<longrightarrow>
          (\<exists>es st'.
             (training torch_load cams entropy dataset opt pp light outdoor
                testing_iterations save_iterations checkpoint debug_from
                :: ('v, 'p, 'v loop_state) prog)
               = (PrepareOutputAndLogger # SceneSetup # Restore mp # es, Inr st')
           \<and> (\<forall>p. Restore p \<notin> set es)
           \<and> executed_iterations es = [k + 1 .. iterations opt]
           \<and> (k < iterations opt \<longrightarrow>
                 hd (executed_iterations es) = k + 1
               \<and> last (executed_iterations es) = iterations opt)))
     \<and> (\<not> checkpoint_truthy checkpoint \<longrightarrow>
          (\<exists>es st'.
             (training torch_load cams entropy dataset opt pp light outdoor
                testing_iterations save_iterations checkpoint debug_from
                :: ('v, 'p, 'v loop_state) prog)
               = (PrepareOutputAndLogger # SceneSetup # es, Inr st')
           \<and> (\<forall>p. Restore p \<notin> set es)
           \<and> executed_iterations es = [1 .. iterations opt]
           \<and> (0 < iterations opt \<longrightarrow>
                 hd (executed_iterations es) = 1
               \<and> last (executed_iterations es) = iterations opt)))"
proof (intro conjI impI)
  assume "checkpoint_truthy checkpoint \<and> torch_load (the checkpoint) = Inr (mp, k)"
  then have ct: "checkpoint_truthy checkpoint" and tl: "torch_load (the checkpoint) = Inr (mp, k)"
    by simp_all
  obtain es st' where
    t: "(training torch_load cams entropy dataset opt pp light outdoor
                testing_iterations save_iterations checkpoint debug_from
                :: ('v, 'p, 'v loop_state) prog)
          = (PrepareOutputAndLogger # SceneSetup # Restore mp # es, Inr st')"
    and e: "executed_iterations es = [k + 1 .. iterations opt]"
    and r: "\<forall>p. Restore p \<notin> set es"
    using training_with_checkpoint[where torch_load = torch_load, OF c di ri ct tl] by blast
  have "k < iterations opt \<longrightarrow>
          hd (executed_iterations es) = k + 1 \<and> last (executed_iterations es) = iterations opt"
    unfolding e using hd_last_upto[of "k + 1" "iterations opt"] by simp
  then show "\<exists>es st'.
             (training torch_load cams entropy dataset opt pp light outdoor
                testing_iterations save_iterations checkpoint debug_from
                :: ('v, 'p, 'v loop_state) prog)
               = (PrepareOutputAndLogger # SceneSetup # Restore mp # es, Inr st')
           \<and> (\<forall>p. Restore p \<notin> set es)
           \<and> executed_iterations es = [k + 1 .. iterations opt]
           \<and> (k < iterations opt \<longrightarrow>
                 hd (executed_iterations es) = k + 1
               \<and> last (executed_iterations es) = iterations opt)"
    using t e r by blast
next
  assume ct: "\<not> checkpoint_truthy checkpoint"
  obtain es st' where
    t: "(training torch_load cams entropy dataset opt pp light outdoor
                testing_iterations save_iterations checkpoint debug_from
                :: ('v, 'p, 'v loop_state) prog)
          = (PrepareOutputAndLogger # SceneSetup # es, Inr st')"
    and e: "executed_iterations es = [1 .. iterations opt]"
    and r: "\<forall>p. Restore p \<notin> set es"
    using training_without_checkpoint[where torch_load = torch_load, OF c di ri ct] by blast
  have "0 < iterations opt \<longrightarrow>
          hd (executed_iterations es) = 1 \<and> last (executed_iterations es) = iterations opt"
    unfolding e using hd_last_upto[of 1 "iterations opt"] by simp
  then show "\<exists>es st'.
             (training torch_load cams entropy dataset opt pp light outdoor
                testing_iterations save_iterations checkpoint debug_from
                :: ('v, 'p, 'v loop_state) prog)
               = (PrepareOutputAndLogger # SceneSetup # es, Inr st')
           \<and> (\<forall>p. Restore p \<notin> set es)
           \<and> executed_iterations es = [1 .. iterations opt]
           \<and> (0 < iterations opt \<longrightarrow>
                 hd (executed_iterations es) = 1
               \<and> last (executed_iterations es) = iterations opt)"
    using t e r by blast
qed


text \<open>
  The scenario of the specification: a checkpoint saved at iteration 7000, default
  total of 30000, one training view.
\<close>

theorem checkpoint_resume_witness:
  "[0::nat] \<noteq> [] \<and> densification_interval OptimizationParams_init \<noteq> 0
   \<and> opacity_reset_interval OptimizationParams_init \<noteq> 0
   \<and> checkpoint_truthy (Some ''chkpnt7000.pth'')
   \<and> (\<lambda>path. if path = ''chkpnt7000.pth'' then Inr (42::nat, 7000::int) else Inl ExternalError)
        (the (Some ''chkpnt7000.pth'')) = Inr (42, 7000)
   \<and> 7000 < iterations OptimizationParams_init
   \<and> (\<exists>es st'.
        (training
           (\<lambda>path. if path = ''chkpnt7000.pth'' then Inr (42::nat, 7000::int) else Inl ExternalError)
           [0::nat] (\<lambda>i. 0) ModelParams_init OptimizationParams_init PipelineParams_init
           False False [7000, 30000] [7000, 30000, 30000] (Some ''chkpnt7000.pth'') (- 1)
           :: (nat, nat, nat loop_state) prog)
          = (PrepareOutputAndLogger # SceneSetup # Restore 42 # es, Inr st')
        \<and> executed_iterations es = [7000 + 1 .. iterations OptimizationParams_init]
        \<and> hd (executed_iterations es) = 7000 + 1
        \<and> last (executed_iterations es) = iterations OptimizationParams_init)
   \<and> \<not> checkpoint_truthy None
   \<and> 0 < iterations OptimizationParams_init
   \<and> (\<exists>es st'.
        (training
           (\<lambda>path. if path = ''chkpnt7000.pth'' then Inr (42::nat, 7000::int) else Inl ExternalError)
           [0::nat] (\<lambda>i. 0) ModelParams_init OptimizationParams_init PipelineParams_init
           False False [7000, 30000] [7000, 30000, 30000] None (- 1)
           :: (nat, nat, nat loop_state) prog)
          = (PrepareOutputAndLogger # SceneSetup # es, Inr st')
        \<and> executed_iterations es = [1 .. iterations OptimizationParams_init]
        \<and> hd (executed_iterations es) = 1
        \<and> last (executed_iterations es) = iterations OptimizationParams_init)"
proof -
  have c: "[0::nat] \<noteq> []" by simp
  note di = default_intervals(1) and ri = default_intervals(2)
  have ct: "checkpoint_truthy (Some ''chkpnt7000.pth'')"
    and cn: "\<not> checkpoint_truthy None"
    by (simp_all add: checkpoint_truthy_def)
  have tl: "(\<lambda>path. if path = ''chkpnt7000.pth'' then Inr (42::nat, 7000::int) else Inl ExternalError)
        (the (Some ''chkpnt7000.pth'')) = Inr (42, 7000)"
    by simp
  have n: "7000 < iterations OptimizationParams_init" "0 < iterations OptimizationParams_init"
    by (simp_all add: OptimizationParams_init_def)
  note r1 = checkpoint_resume[OF c di ri,
      where torch_load = "\<lambda>path. if path = ''chkpnt7000.pth'' then Inr (42::nat, 7000::int) else Inl ExternalError"
        and checkpoint = "Some ''chkpnt7000.pth''" and mp = 42 and k = 7000
        and entropy = "\<lambda>i. 0" and dataset = ModelParams_init and pp = PipelineParams_init
        and light = False and outdoor = False and testing_iterations = "[7000, 30000]"
        and save_iterations = "[7000, 30000, 30000]" and debug_from = "- 1"]
  note r2 = checkpoint_resume[OF c di ri,
      where torch_load = "\<lambda>path. if path = ''chkpnt7000.pth'' then Inr (42::nat, 7000::int) else Inl ExternalError"
        and checkpoint = None and mp = 42 and k = 7000
        and entropy = "\<lambda>i. 0" and dataset = ModelParams_init and pp = PipelineParams_init
        and light = False and outdoor = False and testing_iterations = "[7000, 30000]"
        and save_iterations = "[7000, 30000, 30000]" and debug_from = "- 1"]
  have a: "\<exists>es st'.
        (training
           (\<lambda>path. if path = ''chkpnt7000.pth'' then Inr (42::nat, 7000::int) else Inl ExternalError)
           [0::nat] (\<lambda>i. 0) ModelParams_init OptimizationParams_init PipelineParams_init
           False False [7000, 30000] [7000, 30000, 30000] (Some ''chkpnt7000.pth'') (- 1)
           :: (nat, nat, nat loop_state) prog)
          = (PrepareOutputAndLogger # SceneSetup # Restore 42 # es, Inr st')
        \<and> executed_iterations es = [7000 + 1 .. iterations OptimizationParams_init]
        \<and> hd (executed_iterations es) = 7000 + 1
        \<and> last (executed_iterations es) = iterations OptimizationParams_init"
    using r1 ct tl n(1) by blast
  have b: "\<exists>es st'.
        (training
           (\<lambda>path. if path = ''chkpnt7000.pth'' then Inr (42::nat, 7000::int) else Inl ExternalError)
           [0::nat] (\<lambda>i. 0) ModelParams_init OptimizationParams_init PipelineParams_init
           False False [7000, 30000] [7000, 30000, 30000] None (- 1)
           :: (nat, nat, nat loop_state) prog)
          = (PrepareOutputAndLogger # SceneSetup # es, Inr st')
        \<and> executed_iterations es = [1 .. iterations OptimizationParams_init]
        \<and> hd (executed_iterations es) = 1
        \<and> last (executed_iterations es) = iterations OptimizationParams_init"
    using r2 cn n(2) by blast
  show ?thesis
    using c di ri ct tl n cn a b by blast
qed

lemma select_view_refill_iff:
  "(GetTrainCameras \<in> set (fst (select_view cams stack r :: ('v, 'p, 'v \<times> 'v list) prog)))
     = stack_falsy stack"
  by (auto simp add: select_view_def prog_simps and_then_def split: sum.splits prod.splits)

lemma select_view_pop:
  assumes "(select_view cams stack r :: ('v, 'p, 'v \<times> 'v list) prog) = (ses, Inr (v, stk))"
  shows "(if stack_falsy stack then cams else the stack) \<noteq> []
       \<and> mset (if stack_falsy stack then cams else the stack) = add_mset v (mset stk)"
proof (cases "stack_falsy stack")
  case True
  show ?thesis
  proof (cases "cams = []")
    case True
    with \<open>stack_falsy stack\<close> assms show ?thesis by (simp add: select_view_empty)
  next
    case False
    have "r mod length cams < length cams" using False by simp
    from mset_remove_nth[OF this] assms \<open>stack_falsy stack\<close> False
    show ?thesis by (auto simp add: select_view_refill)
  qed
next
  case False
  then obtain xs where xs: "stack = Some xs" "xs \<noteq> []"
    by (auto simp: stack_falsy_def split: option.splits)
  have "r mod length xs < length xs" using xs by simp
  from mset_remove_nth[OF this] assms False xs
  show ?thesis by (auto simp add: select_view_keep)
qed

text \<open>
  C8. A selection refills the queue (calls \<^verbatim>\<open>getTrainCameras\<close>) exactly when the
  queue is \<^verbatim>\<open>None\<close> or empty. Whenever a selection returns a view, the queue it
  popped from (the training views after a refill, the old queue otherwise) was not
  empty and is the returned view together with the queue left behind. Started on an
  empty queue, a run of as many iterations as there are training views completes,
  refills exactly once, renders every training view exactly once and leaves the queue
  empty again, so that the next selection is the next refill.
\<close>

theorem view_queue_cycle:
  assumes c: "cams \<noteq> []"
    and di: "densification_interval opt \<noteq> 0" and ri: "opacity_reset_interval opt \<noteq> 0"
  shows "((GetTrainCameras \<in> set (fst (select_view cams stack r :: ('v, 'p, 'v \<times> 'v list) prog)))
            = stack_falsy stack)
     \<and> ((select_view cams stack r :: ('v, 'p, 'v \<times> 'v list) prog) = (ses, Inr (v, stk)) \<longrightarrow>
           (if stack_falsy stack then cams else the stack) \<noteq> []
         \<and> mset (if stack_falsy stack then cams else the stack) = add_mset v (mset stk))
     \<and> (stack_falsy (viewpoint_stack st) \<and> length its = length cams \<longrightarrow>
          (\<exists>es st'.
             (for_loop (\<lambda>i. iteration_body cams (entropy i) dataset opt light
                              testing_iterations save_iterations debug_from i) its st
                :: ('v, 'p, 'v loop_state) prog) = (es, Inr st')
           \<and> mset (rendered_views es) = mset cams
           \<and> count_list es GetTrainCameras = 1
           \<and> stack_falsy (viewpoint_stack st')))"
proof -
  have a: "(GetTrainCameras \<in> set (fst (select_view cams stack r :: ('v, 'p, 'v \<times> 'v list) prog)))
            = stack_falsy stack"
    by (rule select_view_refill_iff)
  have b: "(select_view cams stack r :: ('v, 'p, 'v \<times> 'v list) prog) = (ses, Inr (v, stk)) \<longrightarrow>
           (if stack_falsy stack then cams else the stack) \<noteq> []
         \<and> mset (if stack_falsy stack then cams else the stack) = add_mset v (mset stk)"
    by (rule impI) (rule select_view_pop)
  have "\<exists>es st'.
             (for_loop (\<lambda>i. iteration_body cams (entropy i) dataset opt light
                              testing_iterations save_iterations debug_from i) its st
                :: ('v, 'p, 'v loop_state) prog) = (es, Inr st')
           \<and> mset (rendered_views es) = mset cams
           \<and> count_list es GetTrainCameras = 1
           \<and> stack_falsy (viewpoint_stack st')"
    if f: "stack_falsy (viewpoint_stack st)" and len: "length its = length cams"
    using for_loop_cycle[OF c di ri f len] by (fastforce simp: stack_falsy_def)
  then show ?thesis using a b by blast
qed


text \<open>Three training views, iterations 1 to 3.\<close>

theorem view_queue_cycle_witness:
  "[10, 20, 30::nat] \<noteq> [] \<and> densification_interval OptimizationParams_init \<noteq> 0
   \<and> opacity_reset_interval OptimizationParams_init \<noteq> 0
   \<and> (select_view [10, 20, 30::nat] None 1 :: (nat, unit, nat \<times> nat list) prog)
        = ([GetTrainCameras], Inr (20, [10, 30]))
   \<and> ((GetTrainCameras \<in> set (fst (select_view [10, 20, 30::nat] None 1
                                        :: (nat, unit, nat \<times> nat list) prog)))
        = stack_falsy (None :: nat list option))
   \<and> mset (if stack_falsy (None :: nat list option) then [10, 20, 30::nat] else the None)
        = add_mset 20 (mset [10, 30])
   \<and> stack_falsy (viewpoint_stack \<lparr>viewpoint_stack = None :: nat list option,
                                     pipe = PipelineParams_init\<rparr>)
   \<and> length [1, 2, 3::int] = length [10, 20, 30::nat]
   \<and> (\<exists>es st'.
         (for_loop (\<lambda>i. iteration_body [10, 20, 30::nat] (nat i) ModelParams_init
                          OptimizationParams_init False [] [] (- 1) i)
            [1, 2, 3] \<lparr>viewpoint_stack = None, pipe = PipelineParams_init\<rparr>
            :: (nat, unit, nat loop_state) prog) = (es, Inr st')
       \<and> mset (rendered_views es) = mset [10, 20, 30]
       \<and> count_list es GetTrainCameras = 1
       \<and> stack_falsy (viewpoint_stack st'))"
proof -
  have c: "[10, 20, 30::nat] \<noteq> []" by simp
  note di = default_intervals(1) and ri = default_intervals(2)
  have f: "stack_falsy (None :: nat list option)" by (simp add: stack_falsy_def)
  have f': "stack_falsy (viewpoint_stack \<lparr>viewpoint_stack = None :: nat list option,
                                     pipe = PipelineParams_init\<rparr>)"
    by (simp add: stack_falsy_def)
  have sel: "(select_view [10, 20, 30::nat] None 1 :: (nat, unit, nat \<times> nat list) prog)
        = ([GetTrainCameras], Inr (20, [10, 30]))"
    by (simp add: select_view_refill[OF f c])
  have len: "length [1, 2, 3::int] = length [10, 20, 30::nat]" by simp
  note r = view_queue_cycle[OF c di ri,
      where stack = None and r = 1 and ses = "[GetTrainCameras] :: (nat, unit) event list" and v = 20 and stk = "[10, 30]"
        and st = "\<lparr>viewpoint_stack = None, pipe = PipelineParams_init\<rparr>"
        and its = "[1, 2, 3]" and entropy = "\<lambda>i. nat i" and dataset = ModelParams_init
        and light = False and testing_iterations = "[]" and save_iterations = "[]"
        and debug_from = "- 1"]
  have a: "(GetTrainCameras \<in> set (fst (select_view [10, 20, 30::nat] None 1
                                        :: (nat, unit, nat \<times> nat list) prog)))
        = stack_falsy (None :: nat list option)"
    using r by (rule conjunct1)
  have b: "mset (if stack_falsy (None :: nat list option) then [10, 20, 30::nat] else the None)
        = add_mset 20 (mset [10, 30])"
    using r[THEN conjunct2, THEN conjunct1, THEN mp, OF sel] by (rule conjunct2)
  have d: "\<exists>es st'.
         (for_loop (\<lambda>i. iteration_body [10, 20, 30::nat] (nat i) ModelParams_init
                          OptimizationParams_init False [] [] (- 1) i)
            [1, 2, 3] \<lparr>viewpoint_stack = None, pipe = PipelineParams_init\<rparr>
            :: (nat, unit, nat loop_state) prog) = (es, Inr st')
       \<and> mset (rendered_views es) = mset [10, 20, 30]
       \<and> count_list es GetTrainCameras = 1
       \<and> stack_falsy (viewpoint_stack st')"
    using r[THEN conjunct2, THEN conjunct2, THEN mp, OF conjI[OF f' len]] .
  show ?thesis
    using c di ri sel f' len a b d by (intro conjI)
qed

section \<open>The domain adaptation\<close>

text \<open>
  C10. With the light flag set, \<open>adapt\<close> is the identity, whatever the outdoor flag:
  the configuration comes back with every attribute unchanged.
\<close>

theorem adapt_light_identity: "adapt opt True outdoor = opt"
  by (simp add: adapt_def)

text \<open>
  C9, as the code has it. \<open>adapt\<close> never changes \<open>reset_opacity_until\<close>, for any
  configuration and any flags: what it assigns is the other attribute,
  \<open>reset_opacity_unil\<close>, which the population-control dispatch of the loop does not
  read. The deadline the loop reads is therefore the one of the input configuration,
  whatever the flags: 9000 on the defaults of \<open>OptimizationParams\<close>.
\<close>

theorem adapt_keeps_reset_opacity_until:
  "reset_opacity_until (adapt opt light outdoor) = reset_opacity_until opt
   \<and> reset_opacity_until (adapt OptimizationParams_init light outdoor) = 9000
   \<and> (population_control dataset (opt\<lparr>reset_opacity_unil := u\<rparr>) iteration
        :: ('v, 'p, unit) prog) = population_control dataset opt iteration"
  by (simp add: adapt_def Let_def OptimizationParams_init_def population_control_def)

text \<open>
  The claim as worded fails for a configuration that does not carry the default: with
  \<^verbatim>\<open>--reset_opacity_until 12000\<close> on the command line the deadline after \<open>adapt\<close> is
  12000, not 9000, for each of the four flag pairs.
\<close>

theorem reset_deadline_override_counterexample:
  "reset_opacity_until
     (adapt (OptimizationParams_init\<lparr>reset_opacity_until := 12000\<rparr>) False False) = 12000
   \<and> reset_opacity_until
     (adapt (OptimizationParams_init\<lparr>reset_opacity_until := 12000\<rparr>) False True) = 12000
   \<and> reset_opacity_until
     (adapt (OptimizationParams_init\<lparr>reset_opacity_until := 12000\<rparr>) True False) = 12000
   \<and> reset_opacity_until
     (adapt (OptimizationParams_init\<lparr>reset_opacity_until := 12000\<rparr>) True True) = 12000
   \<and> (12000::int) \<noteq> 9000"
  by (simp add: adapt_def Let_def)

section \<open>Combining the stored configuration with the command line\<close>

lemma ModelParams_parser_dests:
  "map dest (ModelParams_parser s) =
     [''sh_degree'', ''source_path'', ''model_path'', ''images'', ''resolution'',
      ''white_background'', ''data_device'', ''eval'']"
  by (simp add: ModelParams_parser_def ParamGroup_init_def ModelParams_fields_def add_param_def Let_def)

text \<open>
  C6, evaluated on the code. With the parser of \<^verbatim>\<open>ModelParams(parser, sentinel=True)\<close>,
  a model path given on the command line and no \<^verbatim>\<open>cfg_args\<close> file under it,
  \<open>get_combined_args\<close> ends with FileNotFoundError, whatever \<^verbatim>\<open>eval\<close> does: the
  handler catches TypeError only. The handler is reached when no model path is given
  (the sentinel default \<^verbatim>\<open>None\<close> makes \<^verbatim>\<open>os.path.join\<close> raise TypeError); then the
  empty configuration is merged.
\<close>

theorem missing_cfg_file_raises:
  "get_combined_args Map.empty py_eval (ModelParams_parser True)
      [(''model_path'', PStr ''output/run'')] = Inl FileNotFoundError
   \<and> get_combined_args Map.empty eval_example (ModelParams_parser True) [] = Inr []"
  by (simp add: get_combined_args_def parse_args_def read_cfgfile_def os_path_join_def
      merge_args_def eval_example_def
      ModelParams_parser_def ParamGroup_init_def ModelParams_fields_def add_param_def Let_def)

lemma merge_args_lookup:
  assumes "distinct (map fst cmd)"
  shows "map_of (merge_args stored cmd) key =
     (case map_of cmd key of
        Some v \<Rightarrow> if v \<noteq> PNone then Some v else map_of stored key
      | None \<Rightarrow> map_of stored key)"
  using assms
proof (induction cmd arbitrary: stored)
  case Nil
  show ?case by (simp add: merge_args_def)
next
  case (Cons item rest)
  have d: "distinct (map fst rest)" and n: "fst item \<notin> fst ` set rest"
    using Cons.prems by auto
  have none: "map_of rest (fst item) = None"
    using n by (simp add: map_of_eq_None_iff)
  have step: "merge_args stored (item # rest) =
      merge_args (if snd item \<noteq> PNone then AList.update (fst item) (snd item) stored else stored) rest"
    by (simp add: merge_args_def)
  show ?case
    unfolding step Cons.IH[OF d]
    using none by (cases item) (auto simp add: update_conv' split: option.splits)
qed

lemma parse_args_lookup:
  "map_of (map (\<lambda>a. (dest a, f a)) parser) key
     = map_option f (find (\<lambda>a. dest a = key) parser)"
  by (induction parser) auto


text \<open>
  C7, as the code has it. The command line names only registered options, each with
  a value, among them the model path; the file \<^verbatim>\<open>cfg_args\<close> under that path exists
  and evaluates to the stored record. Then \<open>get_combined_args\<close> returns, and for every
  key: a value supplied on the command line wins (the last one, when the option is
  repeated); a key not supplied takes the
  parser's default when that default is not \<^verbatim>\<open>None\<close>; and it falls back to the stored
  record when the default is \<^verbatim>\<open>None\<close> (a group registered with \<^verbatim>\<open>fill_none\<close>) or the
  parser does not know the key.
\<close>

theorem merge_policy:
  assumes known: "set (map fst supplied) \<subseteq> set (map dest parser)"
    and dist: "distinct (map dest parser)"
    and given: "PNone \<notin> snd ` set supplied"
    and path: "map_of (rev supplied) ''model_path'' = Some (PStr p)"
    and found: "files (if p = [] \<or> last p = CHR ''/'' then p @ ''cfg_args''
                      else p @ ''/'' @ ''cfg_args'') = Some content"
    and stored: "py_eval content = Inr args_cfgfile"
  shows "\<exists>merged. get_combined_args files py_eval parser supplied = Inr merged
     \<and> map_of merged key =
        (case map_of (rev supplied) key of
           Some v \<Rightarrow> Some v
         | None \<Rightarrow>
            (case find (\<lambda>a. dest a = key) parser of
               None \<Rightarrow> map_of args_cfgfile key
             | Some a \<Rightarrow> if arg_default a \<noteq> PNone then Some (arg_default a)
                         else map_of args_cfgfile key))"
proof -
  define args_cmdline where "args_cmdline =
    map (\<lambda>a. (dest a, (case map_of (rev supplied) (dest a) of Some v \<Rightarrow> v | None \<Rightarrow> arg_default a)))
      parser"
  have parse: "parse_args parser supplied = Inr args_cmdline"
    using known by (simp add: parse_args_def args_cmdline_def)
  have keys: "map fst args_cmdline = map dest parser"
    by (simp add: args_cmdline_def comp_def)
  have look: "map_of args_cmdline k =
      map_option (\<lambda>a. case map_of (rev supplied) (dest a) of Some v \<Rightarrow> v | None \<Rightarrow> arg_default a)
        (find (\<lambda>a. dest a = k) parser)" for k
    unfolding args_cmdline_def by (rule parse_args_lookup)
  have "(''model_path'', PStr p) \<in> set supplied"
    using map_of_SomeD[OF path] by simp
  then have "''model_path'' \<in> set (map fst supplied)"
    by force
  then have "''model_path'' \<in> set (map dest parser)"
    using known by blast
  then obtain a where a: "find (\<lambda>a. dest a = ''model_path'') parser = Some a"
    by (cases "find (\<lambda>a. dest a = ''model_path'') parser") (auto simp: find_None_iff)
  have da: "dest a = ''model_path''" using a by (auto simp: find_Some_iff)
  have mp: "map_of args_cmdline ''model_path'' = Some (PStr p)"
    by (simp add: look a da path)
  have read: "read_cfgfile files args_cmdline = Inr content"
    using found by (simp add: read_cfgfile_def mp os_path_join_def)
  have res: "get_combined_args files py_eval parser supplied
      = Inr (merge_args args_cfgfile args_cmdline)"
    by (simp add: get_combined_args_def parse read stored)
  have sup: "v \<noteq> PNone" if "map_of (rev supplied) k = Some v" for k v
    using that given by (force dest!: map_of_SomeD)
  have "map_of (merge_args args_cfgfile args_cmdline) key =
        (case map_of (rev supplied) key of
           Some v \<Rightarrow> Some v
         | None \<Rightarrow>
            (case find (\<lambda>a. dest a = key) parser of
               None \<Rightarrow> map_of args_cfgfile key
             | Some a \<Rightarrow> if arg_default a \<noteq> PNone then Some (arg_default a)
                         else map_of args_cfgfile key))"
  proof (cases "find (\<lambda>a. dest a = key) parser")
    case None
    then have "key \<notin> set (map dest parser)" by (auto simp: find_None_iff)
    then have "map_of (rev supplied) key = None"
      using known by (auto simp: map_of_eq_None_iff)
    then show ?thesis
      using None by (simp add: merge_args_lookup keys dist look)
  next
    case (Some b)
    then have db: "dest b = key" by (auto simp: find_Some_iff)
    show ?thesis
      using Some db sup[of key]
      by (auto simp add: merge_args_lookup keys dist look split: option.splits)
  qed
  then show ?thesis using res by simp
qed


text \<open>
  Sentinel parser, stored \<^verbatim>\<open>sh_degree=2\<close>, command line with a model path and the
  resolution given twice, 4 and then 8: \<^verbatim>\<open>sh_degree\<close> falls back to 2,
  \<^verbatim>\<open>resolution\<close> is the last supplied value 8.
\<close>

theorem merge_policy_witness:
  "set (map fst [(''model_path'', PStr ''out''), (''resolution'', PInt 4), (''resolution'', PInt 8)])
     \<subseteq> set (map dest (ModelParams_parser True))
   \<and> distinct (map dest (ModelParams_parser True))
   \<and> PNone \<notin> snd ` set [(''model_path'', PStr ''out''), (''resolution'', PInt 4), (''resolution'', PInt 8)]
   \<and> map_of (rev [(''model_path'', PStr ''out''), (''resolution'', PInt 4), (''resolution'', PInt 8)]) ''model_path''
       = Some (PStr ''out'')
   \<and> (Map.empty(''out/cfg_args'' \<mapsto> ''Namespace(sh_degree=2)'')) ''out/cfg_args''
       = Some ''Namespace(sh_degree=2)''
   \<and> eval_example ''Namespace(sh_degree=2)'' = Inr [(''sh_degree'', PInt 2)]
   \<and> (\<exists>merged.
        get_combined_args (Map.empty(''out/cfg_args'' \<mapsto> ''Namespace(sh_degree=2)''))
          eval_example (ModelParams_parser True)
          [(''model_path'', PStr ''out''), (''resolution'', PInt 4), (''resolution'', PInt 8)] = Inr merged
        \<and> map_of merged ''sh_degree'' = Some (PInt 2))
   \<and> (\<exists>merged.
        get_combined_args (Map.empty(''out/cfg_args'' \<mapsto> ''Namespace(sh_degree=2)''))
          eval_example (ModelParams_parser True)
          [(''model_path'', PStr ''out''), (''resolution'', PInt 4), (''resolution'', PInt 8)] = Inr merged
        \<and> map_of merged ''resolution'' = Some (PInt 8))"
proof -
  have known: "set (map fst [(''model_path'', PStr ''out''), (''resolution'', PInt 4), (''resolution'', PInt 8)])
     \<subseteq> set (map dest (ModelParams_parser True))"
    and dist: "distinct (map dest (ModelParams_parser True))"
    by (simp_all add: ModelParams_parser_dests)
  have given: "PNone \<notin> snd ` set [(''model_path'', PStr ''out''), (''resolution'', PInt 4), (''resolution'', PInt 8)]"
    and path: "map_of (rev [(''model_path'', PStr ''out''), (''resolution'', PInt 4), (''resolution'', PInt 8)]) ''model_path''
       = Some (PStr ''out'')"
    by simp_all
  have found: "(Map.empty(''out/cfg_args'' \<mapsto> ''Namespace(sh_degree=2)''))
       (if ''out'' = [] \<or> last ''out'' = CHR ''/'' then ''out'' @ ''cfg_args''
        else ''out'' @ ''/'' @ ''cfg_args'') = Some ''Namespace(sh_degree=2)''"
    by simp
  have stored: "eval_example ''Namespace(sh_degree=2)'' = Inr [(''sh_degree'', PInt 2)]"
    by (simp add: eval_example_def)
  have d: "find (\<lambda>a. dest a = ''sh_degree'') (ModelParams_parser True)
      = Some \<lparr>dest = ''sh_degree'', option_strings = [''--sh_degree''],
               arg_default = PNone, arg_action = Store TInt\<rparr>"
    by (simp add: ModelParams_parser_def ParamGroup_init_def ModelParams_fields_def
        add_param_def Let_def)
  have a: "\<exists>merged.
        get_combined_args (Map.empty(''out/cfg_args'' \<mapsto> ''Namespace(sh_degree=2)''))
          eval_example (ModelParams_parser True)
          [(''model_path'', PStr ''out''), (''resolution'', PInt 4), (''resolution'', PInt 8)] = Inr merged
        \<and> map_of merged ''sh_degree'' = Some (PInt 2)"
    using merge_policy[where files = "Map.empty(''out/cfg_args'' \<mapsto> ''Namespace(sh_degree=2)'')"
        and py_eval = eval_example and key = "''sh_degree''", OF known dist given path found stored]
    by (simp add: d)
  have b: "\<exists>merged.
        get_combined_args (Map.empty(''out/cfg_args'' \<mapsto> ''Namespace(sh_degree=2)''))
          eval_example (ModelParams_parser True)
          [(''model_path'', PStr ''out''), (''resolution'', PInt 4), (''resolution'', PInt 8)] = Inr merged
        \<and> map_of merged ''resolution'' = Some (PInt 8)"
    using merge_policy[where files = "Map.empty(''out/cfg_args'' \<mapsto> ''Namespace(sh_degree=2)'')"
        and py_eval = eval_example and key = "''resolution''", OF known dist given path found stored]
    by simp
  show ?thesis
    using known dist given path stored a b by simp
qed

text \<open>
  The claim as the specification words it fails for a parser registered without
  \<^verbatim>\<open>fill_none\<close> (as \<^verbatim>\<open>ModelParams(parser)\<close> in train.py): \<^verbatim>\<open>sh_degree\<close> is not
  supplied, the stored record has 2, and the result has the parser's default 3.
\<close>

theorem unsupplied_default_counterexample:
  "get_combined_args (Map.empty(''out/cfg_args'' \<mapsto> ''Namespace(sh_degree=2)''))
     eval_example (ModelParams_parser False) [(''model_path'', PStr ''out'')]
     = Inr [(''sh_degree'', PInt 3), (''source_path'', PStr []),
            (''model_path'', PStr ''out''), (''images'', PStr ''images''),
            (''resolution'', PInt (- 1)), (''white_background'', PBool False),
            (''data_device'', PStr ''cuda''), (''eval'', PBool False)]
   \<and> map_of [(''model_path'', PStr ''out'')] ''sh_degree'' = None
   \<and> eval_example ''Namespace(sh_degree=2)'' = Inr [(''sh_degree'', PInt 2)]"
  by (simp add: get_combined_args_def parse_args_def read_cfgfile_def os_path_join_def
      merge_args_def eval_example_def
      ModelParams_parser_def ParamGroup_init_def ModelParams_fields_def add_param_def Let_def)

end
